theory Spec2Isabelle
  imports Complex_Main
begin

section \<open>JavaScript strings and truthiness\<close>

text \<open>
  Strings are byte strings (UTF-8). \<^verbatim>\<open>toLowerCase\<close> lower-cases the letters A
  to Z: the source only follows it by a search for an ASCII marker or suffix, and no
  character outside ASCII lower-cases to a letter of these.
\<close>

definition toLowerCase :: "string \<Rightarrow> string" where
  "toLowerCase s =
     map (\<lambda>c. case map_of (zip ''ABCDEFGHIJKLMNOPQRSTUVWXYZ'' ''abcdefghijklmnopqrstuvwxyz'') c of
                 None \<Rightarrow> c
               | Some l \<Rightarrow> l) s"

fun startsWith :: "string \<Rightarrow> string \<Rightarrow> bool" where
  "startsWith s [] = True"
| "startsWith [] (p # ps) = False"
| "startsWith (c # cs) (p # ps) = (c = p \<and> startsWith cs ps)"

fun includes_str :: "string \<Rightarrow> string \<Rightarrow> bool" where
  "includes_str [] pat = (pat = [])"
| "includes_str (c # cs) pat = (startsWith (c # cs) pat \<or> includes_str cs pat)"

text \<open>A string is falsy exactly when it is empty; \<^verbatim>\<open>null\<close> and
  \<^verbatim>\<open>undefined\<close> (here \<open>None\<close>) are falsy.\<close>

definition truthy :: "string option \<Rightarrow> bool" where
  "truthy v = (case v of None \<Rightarrow> False | Some s \<Rightarrow> s \<noteq> [])"

section \<open>services/gamma.ts\<close>

subsection \<open>The network boundary\<close>

text \<open>
  A \<^verbatim>\<open>fetch\<close> either rejects (network failure) or resolves to a response.
  A response has a status code and a body; \<open>body\<close> is the text read by
  \<^verbatim>\<open>response.text()\<close> and \<open>json\<close> the value produced by
  \<^verbatim>\<open>response.json()\<close>, \<open>None\<close> when parsing throws (the exception is
  then written \<open>Thrown ''response.json()''\<close>).
  \<^verbatim>\<open>response.ok\<close> holds for the status codes 200 to 299.
\<close>

record 'j response =
  status :: nat
  body :: string
  json :: "'j option"

definition ok :: "'j response \<Rightarrow> bool" where
  "ok r = (200 \<le> status r \<and> status r \<le> 299)"

datatype 'j fetch_result = Rejects string | Resolves "'j response"

text \<open>
  One constructor for each \<^verbatim>\<open>new Error(...)\<close> of the service, carrying the
  values interpolated into its message; \<open>Thrown\<close> is an exception of
  \<^verbatim>\<open>fetch\<close> or \<^verbatim>\<open>response.json()\<close> that the service passes on.
  \<^item> \<open>ApiKeyMissing\<close>: the API key is not configured;
  \<^item> \<open>CorsProxyRequired\<close>: message \<^verbatim>\<open>CORS_PROXY_REQUIRED:...\<close>;
  \<^item> \<open>ListThemesError status body\<close>: \<^verbatim>\<open>Erro ao listar temas da Gamma: ${status} ${errorText}\<close>;
  \<^item> \<open>PollStatusError body\<close>: \<^verbatim>\<open>Erro ao verificar o status do PPTX: ${errorText}\<close>;
  \<^item> \<open>StartGenerationError body\<close>: \<^verbatim>\<open>Erro da API da Gamma ao iniciar ...: ${errorText}\<close>;
  \<^item> \<open>GenerationFailed detail\<close>: \<^verbatim>\<open>A API da Gamma falhou ao gerar o PPTX: ${...}\<close>;
  \<^item> \<open>PollTimeout\<close>: \<^verbatim>\<open>... demorou muito. Tente novamente mais tarde.\<close>.
\<close>

datatype gamma_error =
    ApiKeyMissing
  | CorsProxyRequired
  | ListThemesError nat string
  | PollStatusError string
  | StartGenerationError string
  | GenerationFailed string
  | PollTimeout
  | Thrown string

definition apiKey :: string where
  "apiKey = ''sk-gamma-AKebBwbd65YzLK8dCoJjv0T6G7Xvmyj7xmWBh5VezX0''"

subsection \<open>pollForPptxGeneration\<close>

text \<open>The answer to a status request; \<open>gen_status\<close> is its field
  \<^verbatim>\<open>status\<close>.\<close>

datatype generation_status = pending | completed | failed

record GammaGenerationStatusResponse =
  generationId :: string
  gen_status :: generation_status
  gammaUrl :: "string option"
  pptxUrl :: "string option"
  error :: "string option"

definition maxAttempts :: nat where
  "maxAttempts = 30"

text \<open>
  The state of the interval: \<open>attempts\<close> is the source's counter, \<open>polls\<close> counts
  the status requests issued so far. The backend answers the \<open>k\<close>-th status request
  for a generation id with \<open>fetch k id\<close>.
\<close>

record poll_state =
  attempts :: nat
  polls :: nat

type_synonym poll_backend = "nat \<Rightarrow> string \<Rightarrow> GammaGenerationStatusResponse fetch_result"

text \<open>
  One run of the interval callback. The result \<open>None\<close> leaves the timer armed;
  \<open>Some r\<close> is \<^verbatim>\<open>clearInterval\<close> followed by \<^verbatim>\<open>resolve\<close> (\<open>Inr\<close>) or
  \<^verbatim>\<open>reject\<close> (\<open>Inl\<close>).
\<close>

definition tick :: "poll_backend \<Rightarrow> string \<Rightarrow> poll_state \<Rightarrow> poll_state \<times> (gamma_error + string) option" where
  "tick fetch gid s =
     (let s = s\<lparr>attempts := attempts s + 1\<rparr> in
      if attempts s > maxAttempts then (s, Some (Inl PollTimeout))
      else
        (let reply = fetch (polls s) gid; s = s\<lparr>polls := polls s + 1\<rparr> in
         case reply of
           Rejects e \<Rightarrow> (s, Some (Inl (Thrown e)))
         | Resolves response \<Rightarrow>
             if \<not> ok response then
               (if status response = 403 \<and> includes_str (toLowerCase (body response)) ''corsdemo''
                then (s, Some (Inl CorsProxyRequired))
                else (s, Some (Inl (PollStatusError (body response)))))
             else
               (case json response of
                  None \<Rightarrow> (s, Some (Inl (Thrown ''response.json()'')))
                | Some result \<Rightarrow>
                    if gen_status result = completed \<and> truthy (pptxUrl result)
                    then (s, Some (Inr (the (pptxUrl result))))
                    else if gen_status result = failed
                    then (s, Some (Inl (GenerationFailed
                           (if truthy (error result) then the (error result) else ''Erro desconhecido''))))
                    else (s, None))))"

text \<open>
  The run of the timer in which each callback finishes before the next one starts,
  that is, in which every reply arrives before the next tick. The run in which replies
  may take longer than the interval is \<open>interval_timed\<close> below.
\<close>

function interval :: "poll_backend \<Rightarrow> string \<Rightarrow> poll_state \<Rightarrow> (gamma_error + string) \<times> nat" where
  "interval fetch gid s =
     (case tick fetch gid s of
        (s', None) \<Rightarrow> interval fetch gid s'
      | (s', Some r) \<Rightarrow> (r, polls s'))"
  by pat_completeness auto

termination interval
  by (relation "measure (\<lambda>(fetch, gid, s). maxAttempts + 1 - attempts s)")
     (auto simp: tick_def Let_def split: if_splits fetch_result.splits option.splits)

declare interval.simps [simp del]

definition pollForPptxGeneration :: "poll_backend \<Rightarrow> string \<Rightarrow> (gamma_error + string) \<times> nat" where
  "pollForPptxGeneration fetch gid = interval fetch gid \<lparr>attempts = 0, polls = 0\<rparr>"

subsection \<open>pollForPptxGeneration in time\<close>

text \<open>
  \<open>interval\<close> above is the run in which every reply is handled before the next
  tick. The source does not wait: \<^verbatim>\<open>setInterval\<close> calls the asynchronous callback
  every \<^verbatim>\<open>pollInterval\<close> milliseconds whether or not earlier requests have been
  answered. The following model has the time. The backend gives, for the \<open>k\<close>-th
  status request, the time the reply takes (until the response and its body are
  read) and the reply. \<open>on_reply\<close> is the callback after \<^verbatim>\<open>await fetch\<close>: what it
  settles the promise with, or \<open>None\<close> when it leaves the timer armed.
\<close>

definition pollInterval :: nat where
  "pollInterval = 5000"

definition on_reply :: "GammaGenerationStatusResponse fetch_result \<Rightarrow> (gamma_error + string) option" where
  "on_reply reply =
     (case reply of
        Rejects e \<Rightarrow> Some (Inl (Thrown e))
      | Resolves response \<Rightarrow>
          if \<not> ok response then
            (if status response = 403 \<and> includes_str (toLowerCase (body response)) ''corsdemo''
             then Some (Inl CorsProxyRequired)
             else Some (Inl (PollStatusError (body response))))
          else
            (case json response of
               None \<Rightarrow> Some (Inl (Thrown ''response.json()''))
             | Some result \<Rightarrow>
                 if gen_status result = completed \<and> truthy (pptxUrl result)
                 then Some (Inr (the (pptxUrl result)))
                 else if gen_status result = failed
                 then Some (Inl (GenerationFailed
                        (if truthy (error result) then the (error result) else ''Erro desconhecido'')))
                 else None))"

type_synonym timed_backend = "nat \<Rightarrow> string \<Rightarrow> nat \<times> GammaGenerationStatusResponse fetch_result"

text \<open>The state also holds the replies under way, each with its time of arrival.\<close>

record timed_state = poll_state +
  in_flight :: "(nat \<times> GammaGenerationStatusResponse fetch_result) list"

text \<open>
  One step is the time up to and including the next tick, which is at
  \<open>(attempts + 1) * pollInterval\<close>. First the replies that arrive before the tick
  are handled, in the order of their arrival: the first one that settles the promise
  has cleared the timer, so the run ends with its result and the number of requests
  issued until then (what later replies call \<^verbatim>\<open>resolve\<close> or \<^verbatim>\<open>reject\<close> with has
  no effect). Otherwise the tick counts the attempt and either rejects with the
  timeout or issues the next request, whose reply arrives after its latency. A reply
  that arrives at the very time of a tick is handled after it.
\<close>

function interval_timed :: "timed_backend \<Rightarrow> string \<Rightarrow> timed_state \<Rightarrow> (gamma_error + string) \<times> nat" where
  "interval_timed fetch gid s =
     (let now = (attempts s + 1) * pollInterval;
          arrived = sort_key fst (filter (\<lambda>(t, reply). t < now) (in_flight s))
      in
      case List.map_filter (\<lambda>(t, reply). on_reply reply) arrived of
        r # rs \<Rightarrow> (r, polls s)
      | [] \<Rightarrow>
          (let s = s\<lparr>attempts := attempts s + 1,
                      in_flight := filter (\<lambda>(t, reply). \<not> t < now) (in_flight s)\<rparr>
           in
           if attempts s > maxAttempts then (Inl PollTimeout, polls s)
           else
             (case fetch (polls s) gid of
                (latency, reply) \<Rightarrow>
                  interval_timed fetch gid
                    (s\<lparr>polls := polls s + 1, in_flight := in_flight s @ [(now + latency, reply)]\<rparr>))))"
  by pat_completeness auto

termination interval_timed
  by (relation "measure (\<lambda>(fetch, gid, s). maxAttempts + 1 - attempts s)") auto

declare interval_timed.simps [simp del]

definition pollForPptxGeneration_timed :: "timed_backend \<Rightarrow> string \<Rightarrow> (gamma_error + string) \<times> nat" where
  "pollForPptxGeneration_timed fetch gid = interval_timed fetch gid \<lparr>attempts = 0, polls = 0, in_flight = []\<rparr>"


subsection \<open>listGammaThemes\<close>

text \<open>
  A catalog entry \<^verbatim>\<open>{ id, name }\<close>. An entry of a page may carry further
  fields (the record's extension); the service keeps \<^verbatim>\<open>id\<close> and
  \<^verbatim>\<open>name\<close>.
\<close>

record theme =
  theme_id :: string
  theme_name :: string

record 'a themes_page =
  data :: "'a theme_scheme list"
  hasMore :: bool
  nextCursor :: "string option"

text \<open>The query of a catalog request: \<^verbatim>\<open>limit\<close>, and \<^verbatim>\<open>after\<close>
  when a cursor is set. The backend answers the \<open>k\<close>-th catalog request \<open>q\<close>
  with \<open>fetch k q\<close>.\<close>

record themes_request =
  limit :: nat
  after :: "string option"

type_synonym 'a themes_backend = "nat \<Rightarrow> themes_request \<Rightarrow> 'a themes_page fetch_result"

text \<open>The query parameters appended to the URL of the catalog.\<close>

definition targetUrl :: "string option \<Rightarrow> themes_request" where
  "targetUrl afterCursor = \<lparr>limit = 50, after = (if truthy afterCursor then afterCursor else None)\<rparr>"

text \<open>
  The body of the \<^verbatim>\<open>while\<close> loop: the \<open>n\<close>-th request, from the themes
  collected so far and the cursor. It yields the error thrown, or the new values of
  \<^verbatim>\<open>allThemes\<close>, \<^verbatim>\<open>hasMore\<close> and \<^verbatim>\<open>afterCursor\<close>.
\<close>

definition themes_step ::
  "'a themes_backend \<Rightarrow> theme list \<Rightarrow> string option \<Rightarrow> nat \<Rightarrow> gamma_error + (theme list \<times> bool \<times> string option)" where
  "themes_step fetch allThemes afterCursor n =
     (case fetch n (targetUrl afterCursor) of
        Rejects e \<Rightarrow> Inl (Thrown e)
      | Resolves response \<Rightarrow>
          if \<not> ok response then
            (if status response = 403 \<and> includes_str (toLowerCase (body response)) ''corsdemo''
             then Inl CorsProxyRequired
             else Inl (ListThemesError (status response) (body response)))
          else
            (case json response of
               None \<Rightarrow> Inl (Thrown ''response.json()'')
             | Some page \<Rightarrow>
                 (let themesFromPage = map (\<lambda>t. \<lparr>theme_id = theme_id t, theme_name = theme_name t\<rparr>) (data page)
                  in Inr (allThemes @ themesFromPage, hasMore page, nextCursor page))))"

text \<open>
  The loop has no bound of its own, so it is a partial function: \<open>None\<close> is a run
  that never returns. A run that returns yields the themes or the error, and the
  number of catalog requests issued. \<open>continue\<close> is the loop variable
  \<^verbatim>\<open>hasMore\<close>.
\<close>

partial_function (option) themes_loop ::
  "'a themes_backend \<Rightarrow> theme list \<Rightarrow> bool \<Rightarrow> string option \<Rightarrow> nat \<Rightarrow> ((gamma_error + theme list) \<times> nat) option" where
  "themes_loop fetch allThemes continue afterCursor n =
     (if continue then
        (case themes_step fetch allThemes afterCursor n of
           Inl e \<Rightarrow> Some (Inl e, Suc n)
         | Inr (allThemes', hasMore', afterCursor') \<Rightarrow> themes_loop fetch allThemes' hasMore' afterCursor' (Suc n))
      else Some (Inr allThemes, n))"

definition listGammaThemes :: "'a themes_backend \<Rightarrow> ((gamma_error + theme list) \<times> nat) option" where
  "listGammaThemes fetch =
     (if \<not> truthy (Some apiKey) then Some (Inl ApiKeyMissing, 0)
      else themes_loop fetch [] True None 0)"

text \<open>
  The first \<open>k\<close> iterations of the same loop, from given values of
  \<^verbatim>\<open>allThemes\<close>, \<^verbatim>\<open>hasMore\<close>, \<^verbatim>\<open>afterCursor\<close> and the number of
  requests issued: the values reached, or the error thrown on the way. It shows how
  far a run has come that does not return.
\<close>

fun themes_iterate ::
  "nat \<Rightarrow> 'a themes_backend \<Rightarrow> theme list \<times> bool \<times> string option \<times> nat \<Rightarrow>
   gamma_error + (theme list \<times> bool \<times> string option \<times> nat)" where
  "themes_iterate 0 fetch st = Inr st"
| "themes_iterate (Suc k) fetch (allThemes, continue, afterCursor, n) =
     (if continue then
        (case themes_step fetch allThemes afterCursor n of
           Inl e \<Rightarrow> Inl e
         | Inr (allThemes', hasMore', afterCursor') \<Rightarrow> themes_iterate k fetch (allThemes', hasMore', afterCursor', Suc n))
      else Inr (allThemes, continue, afterCursor, n))"

subsection \<open>generatePresentation\<close>

text \<open>The answer to the submission carries \<^verbatim>\<open>generationId\<close> and
  \<^verbatim>\<open>status\<close>.\<close>

record GammaGenerationStartResponse =
  started_generationId :: string
  started_status :: string





section \<open>services/gemini.ts\<close>

subsection \<open>Strings and values of JavaScript\<close>

text \<open>\<^verbatim>\<open>xs.join(sep)\<close>; it also renders the lines of a multi-line template
  literal, joined by line feeds.\<close>

fun join :: "string \<Rightarrow> string list \<Rightarrow> string" where
  "join sep [] = []"
| "join sep [x] = x"
| "join sep (x # y # ys) = x @ sep @ join sep (y # ys)"

text \<open>
  \<^verbatim>\<open>s.trim()\<close> removes the white space and line terminators of JavaScript from
  both ends. On UTF-8 bytes these are the following sequences: U+0009 to U+000D,
  U+0020, U+00A0, U+1680, U+2000 to U+200A, U+2028, U+2029, U+202F, U+205F, U+3000
  and U+FEFF. \<open>strip ws s\<close> removes from the front of \<open>s\<close>, as long as there is
  one, a sequence of \<open>ws\<close>; the end is stripped on the reversed string.
\<close>

definition whiteSpace :: "string list" where
  "whiteSpace =
     [[CHR 0x09], [CHR 0x0A], [CHR 0x0B], [CHR 0x0C], [CHR 0x0D], [CHR 0x20],
      [CHR 0xC2, CHR 0xA0], [CHR 0xE1, CHR 0x9A, CHR 0x80],
      [CHR 0xE2, CHR 0x80, CHR 0x80], [CHR 0xE2, CHR 0x80, CHR 0x81], [CHR 0xE2, CHR 0x80, CHR 0x82],
      [CHR 0xE2, CHR 0x80, CHR 0x83], [CHR 0xE2, CHR 0x80, CHR 0x84], [CHR 0xE2, CHR 0x80, CHR 0x85],
      [CHR 0xE2, CHR 0x80, CHR 0x86], [CHR 0xE2, CHR 0x80, CHR 0x87], [CHR 0xE2, CHR 0x80, CHR 0x88],
      [CHR 0xE2, CHR 0x80, CHR 0x89], [CHR 0xE2, CHR 0x80, CHR 0x8A],
      [CHR 0xE2, CHR 0x80, CHR 0xA8], [CHR 0xE2, CHR 0x80, CHR 0xA9], [CHR 0xE2, CHR 0x80, CHR 0xAF],
      [CHR 0xE2, CHR 0x81, CHR 0x9F], [CHR 0xE3, CHR 0x80, CHR 0x80], [CHR 0xEF, CHR 0xBB, CHR 0xBF]]"

function strip :: "string list \<Rightarrow> string \<Rightarrow> string" where
  "strip ws s =
     (case find (\<lambda>w. w \<noteq> [] \<and> startsWith s w) ws of
        None \<Rightarrow> s
      | Some w \<Rightarrow> strip ws (drop (length w) s))"
  by pat_completeness auto

termination strip
proof (relation "measure (\<lambda>(ws, s). length s)")
  show "wf (measure (\<lambda>(ws, s). length s))"
    by simp
next
  fix ws :: "string list" and s w :: string
  assume "find (\<lambda>w. w \<noteq> [] \<and> startsWith s w) ws = Some w"
  then have "w \<noteq> [] \<and> startsWith s w"
    by (auto simp: find_Some_iff)
  then have "s \<noteq> [] \<and> w \<noteq> []"
    by (cases s; cases w) simp_all
  then show "((ws, drop (length w) s), (ws, s)) \<in> measure (\<lambda>(ws, s). length s)"
    by simp
qed

declare strip.simps [simp del]

definition trim :: "string \<Rightarrow> string" where
  "trim s = rev (strip (map rev whiteSpace) (rev (strip whiteSpace s)))"

text \<open>\<^verbatim>\<open>s.replace(/"/g, '')\<close>\<close>

definition removeQuotes :: "string \<Rightarrow> string" where
  "removeQuotes s = filter (\<lambda>c. c \<noteq> CHR 0x22) s"

definition endsWith :: "string \<Rightarrow> string \<Rightarrow> bool" where
  "endsWith s suffix = startsWith (rev s) (rev suffix)"

text \<open>A string that may be \<^verbatim>\<open>undefined\<close>, as a template literal renders it.\<close>

definition template :: "string option \<Rightarrow> string" where
  "template v = (case v of None \<Rightarrow> ''undefined'' | Some s \<Rightarrow> s)"

text \<open>
  What is thrown: an \<^verbatim>\<open>Error\<close> with its message, or a value that is not an
  \<^verbatim>\<open>Error\<close> (the event of a failed \<^verbatim>\<open>FileReader\<close>), with a description.
\<close>

datatype thrown = Error string | NotAnError string

text \<open>
  The values a property read can give on an object literal whose own properties are
  strings: a string, \<^verbatim>\<open>undefined\<close>, or what the literal inherits from
  \<^verbatim>\<open>Object.prototype\<close>, namely its built-in functions (by name) and, under
  \<^verbatim>\<open>__proto__\<close>, the prototype object itself.
\<close>

datatype js_value = Undefined | String string | NativeFunction string | ObjectPrototype

definition Object_prototype :: "(string \<times> js_value) list" where
  "Object_prototype =
     [(''constructor'', NativeFunction ''Object''),
      (''__defineGetter__'', NativeFunction ''__defineGetter__''),
      (''__defineSetter__'', NativeFunction ''__defineSetter__''),
      (''hasOwnProperty'', NativeFunction ''hasOwnProperty''),
      (''__lookupGetter__'', NativeFunction ''__lookupGetter__''),
      (''__lookupSetter__'', NativeFunction ''__lookupSetter__''),
      (''isPrototypeOf'', NativeFunction ''isPrototypeOf''),
      (''propertyIsEnumerable'', NativeFunction ''propertyIsEnumerable''),
      (''toString'', NativeFunction ''toString''),
      (''valueOf'', NativeFunction ''valueOf''),
      (''__proto__'', ObjectPrototype),
      (''toLocaleString'', NativeFunction ''toLocaleString'')]"

text \<open>\<^verbatim>\<open>obj[key]\<close>: the own property, else the inherited one, else
  \<^verbatim>\<open>undefined\<close>.\<close>

definition get_property :: "(string \<times> string) list \<Rightarrow> string \<Rightarrow> js_value" where
  "get_property obj key =
     (case map_of obj key of
        Some v \<Rightarrow> String v
      | None \<Rightarrow> (case map_of Object_prototype key of Some v \<Rightarrow> v | None \<Rightarrow> Undefined))"

fun ToBoolean :: "js_value \<Rightarrow> bool" where
  "ToBoolean Undefined = False"
| "ToBoolean (String s) = (s \<noteq> [])"
| "ToBoolean (NativeFunction f) = True"
| "ToBoolean ObjectPrototype = True"

fun ToString :: "js_value \<Rightarrow> string" where
  "ToString Undefined = ''undefined''"
| "ToString (String s) = s"
| "ToString (NativeFunction f) = ''function '' @ f @ ''() { [native code] }''"
| "ToString ObjectPrototype = ''[object Object]''"

subsection \<open>The generation backend\<close>

text \<open>The parts of a request (\<^verbatim>\<open>types.ts\<close>): text, or inline data with its MIME
  type and base64 data.\<close>

datatype GeminiPart = TextPart string | InlineDataPart string "string option"

record GroundingChunk =
  web :: "(string \<times> string) option"
  maps :: "(string \<times> string) option"

text \<open>
  The argument of \<^verbatim>\<open>ai.models.generateContent\<close>: the model, the parts of
  \<^verbatim>\<open>contents\<close> and the fields of \<^verbatim>\<open>config\<close> the service sets
  (\<open>googleSearch\<close> is the presence of the search tool). The call throws or returns
  a response, of which the service reads \<^verbatim>\<open>text\<close> (possibly
  \<^verbatim>\<open>undefined\<close>) and the grounding chunks of the first candidate.
\<close>

record GenerateContentParameters =
  model :: string
  parts :: "GeminiPart list"
  systemInstruction :: "string option"
  googleSearch :: bool
  thinkingBudget :: "nat option"
  temperature :: "rat option"
  maxOutputTokens :: "nat option"

record GenerateContentResponse =
  response_text :: "string option"
  groundingChunks :: "GroundingChunk list option"

type_synonym generateContent = "GenerateContentParameters \<Rightarrow> thrown + GenerateContentResponse"

subsection \<open>The persona and the theme prompts\<close>

definition MARY_PERSONA_PROMPT :: string where
  "MARY_PERSONA_PROMPT =
     join [CHR 0x0A]
      ['''',
       ''1.0 DIRETRIZ PRIM'' @ [CHR 0xC3, CHR 0x81] @ ''RIA E PERSONA'',
       ''--------------------------------'',
       ''1.1 Persona'',
       ''Voc'' @ [CHR 0xC3, CHR 0xAA] @ '' '' @ [CHR 0xC3, CHR 0xA9] @ '' Mary, uma IA Analista de Estrat'' @ [CHR 0xC3, CHR 0xA9] @ ''gia de M'' @ [CHR 0xC3, CHR 0xAD] @ ''dia da Artplan.'',
       ''Sua fun'' @ [CHR 0xC3, CHR 0xA7, CHR 0xC3, CHR 0xA3] @ ''o '' @ [CHR 0xC3, CHR 0xA9] @ '' receber dados brutos e briefings para gerar rascunhos de relat'' @ [CHR 0xC3, CHR 0xB3] @ ''rios de alto impacto, com visualiza'' @ [CHR 0xC3, CHR 0xA7, CHR 0xC3, CHR 0xA3] @ ''o clara e insights acion'' @ [CHR 0xC3, CHR 0xA1] @ ''veis, formatados em Markdown.'',
       ''Voc'' @ [CHR 0xC3, CHR 0xAA] @ '' deve atuar como cientista de dados, interpretando planilhas e relat'' @ [CHR 0xC3, CHR 0xB3] @ ''rios oficiais, cruzando dados, gerando an'' @ [CHR 0xC3, CHR 0xA1] @ ''lises profundas e visuais.'',
       '''',
       ''1.2 Diretriz Prim'' @ [CHR 0xC3, CHR 0xA1] @ ''ria'',
       ''Sua miss'' @ [CHR 0xC3, CHR 0xA3] @ ''o '' @ [CHR 0xC3, CHR 0xA9] @ '' produzir rascunhos que sirvam como ferramentas de neg'' @ [CHR 0xC3, CHR 0xB3] @ ''cio decisivas. Cada documento deve ser:'',
       ''- **Estrategicamente denso e conciso:** Foque em um formato '' @ [CHR 0x22] @ ''OnePage'' @ [CHR 0x22] @ ''. Rico em dados, an'' @ [CHR 0xC3, CHR 0xA1] @ ''lises e insights, mas sem excessos.'',
       ''- **Comunicativamente assertivo:** claro, convincente e baseado em fatos.'',
       '''',
       ''1.3 Tom de Voz: '' @ [CHR 0x22] @ ''Strategic & Assertive'' @ [CHR 0x22],
       ''- O impacto nasce da clareza e autoridade dos dados, nunca de adjetivos vazios.'',
       ''- Escreva como um consultor s'' @ [CHR 0xC3, CHR 0xAA] @ ''nior. Frases curtas, diretas e factuais.'',
       ''- Conclua sempre com insights aplic'' @ [CHR 0xC3, CHR 0xA1] @ ''veis.'',
       ''- Evite palavras fortes como *disruptivo, recorde, mudan'' @ [CHR 0xC3, CHR 0xA7] @ ''a de paradigma* sem comprova'' @ [CHR 0xC3, CHR 0xA7, CHR 0xC3, CHR 0xA3] @ ''o robusta.'',
       '''',
       ''2.0 PROTOCOLO OPERACIONAL'',
       ''--------------------------------'',
       ''2.1 Fase de An'' @ [CHR 0xC3, CHR 0xA1] @ ''lise e S'' @ [CHR 0xC3, CHR 0xAD] @ ''ntese'',
       ''- Analise todas as fontes fornecidas nos arquivos anexados, incluindo o conte'' @ [CHR 0xC3, CHR 0xBA] @ ''do de imagens (prints de dashboards, recortes, etc.).'',
       ''- Extraia m'' @ [CHR 0xC3, CHR 0xA9] @ ''tricas quantitativas e insights qualitativos.'',
       ''- **REGRA DE OURO INLINE:** Ao mencionar qualquer m'' @ [CHR 0xC3, CHR 0xA9] @ ''trica ou dado extra'' @ [CHR 0xC3, CHR 0xAD] @ ''do de um arquivo, **CITE A FONTE IMEDIATAMENTE AP'' @ [CHR 0xC3, CHR 0x93] @ ''S O DADO**, no formato (Fonte: nome_do_arquivo.xlsx). Isso '' @ [CHR 0xC3, CHR 0xA9] @ '' crucial.'',
       ''- Privilegie sempre os dados das planilhas e PDFs fornecidos. Fontes da web (via Google Search, se ativado) devem ser usadas para complementar e contextualizar, nunca para substituir os dados prim'' @ [CHR 0xC3, CHR 0xA1] @ ''rios. As fontes da web devem ser listadas apenas no final do relat'' @ [CHR 0xC3, CHR 0xB3] @ ''rio.'',
       '''',
       ''3.0 ESPECIFICA'' @ [CHR 0xC3, CHR 0x87, CHR 0xC3, CHR 0x83] @ ''O DE CONTE'' @ [CHR 0xC3, CHR 0x9A] @ ''DO E ESTRUTURA'',
       ''-----------------------------------------'',
       ''3.1 Blueprint Narrativo'',
       ''O rascunho em Markdown deve seguir esta estrutura:'',
       ''- **Resumo Estrat'' @ [CHR 0xC3, CHR 0xA9] @ ''gico:** 3 principais takeaways.'',
       ''- **Contextualiza'' @ [CHR 0xC3, CHR 0xA7, CHR 0xC3, CHR 0xA3] @ ''o:** O cen'' @ [CHR 0xC3, CHR 0xA1] @ ''rio analisado.'',
       ''- **An'' @ [CHR 0xC3, CHR 0xA1] @ ''lise Comparativa/Evolutiva:** Compara'' @ [CHR 0xC3, CHR 0xA7, CHR 0xC3, CHR 0xB5] @ ''es de dados e tend'' @ [CHR 0xC3, CHR 0xAA] @ ''ncias.'',
       ''- **An'' @ [CHR 0xC3, CHR 0xA1] @ ''lise de Audi'' @ [CHR 0xC3, CHR 0xAA] @ ''ncia:** Dados de comportamento/demografia.'',
       ''- **Impacto e Resultados:** M'' @ [CHR 0xC3, CHR 0xA9] @ ''tricas de performance relevantes.'',
       ''- **Implica'' @ [CHR 0xC3, CHR 0xA7, CHR 0xC3, CHR 0xB5] @ ''es e Oportunidades:** O '' @ [CHR 0x22] @ ''e da'' @ [CHR 0xC3, CHR 0xAD] @ ''?'' @ [CHR 0x22] @ '' - o que os dados significam e quais os pr'' @ [CHR 0xC3, CHR 0xB3] @ ''ximos passos.'',
       '''',
       ''3.2 Visualiza'' @ [CHR 0xC3, CHR 0xA7, CHR 0xC3, CHR 0xA3] @ ''o de Dados (IMPORTANTE)'',
       ''- **N'' @ [CHR 0xC3, CHR 0x83] @ ''O USE TABELAS MARKDOWN TRADICIONAIS** (`| Header | ... |`). Elas n'' @ [CHR 0xC3, CHR 0xA3] @ ''o s'' @ [CHR 0xC3, CHR 0xA3] @ ''o renderizadas corretamente.'',
       ''- Para apresentar KPIs e m'' @ [CHR 0xC3, CHR 0xA9] @ ''tricas chave, use **SEMPRE** um dos seguintes formatos visuais:'',
       ''  - **Cards/Blocos (Big Numbers):** Use blockquotes para destacar m'' @ [CHR 0xC3, CHR 0xA9] @ ''tricas individuais.'',
       ''    Exemplo:'',
       ''    > **Receita do Trimestre**'',
       ''    > US$ 2.7 bilh'' @ [CHR 0xC3, CHR 0xB5] @ ''es'',
       ''    > '' @ [CHR 0xE2, CHR 0x86, CHR 0x91] @ '' 8% vs per'' @ [CHR 0xC3, CHR 0xAD] @ ''odo anterior'',
       ''  - **Listas com Emojis:** Use listas para agrupar m'' @ [CHR 0xC3, CHR 0xA9] @ ''tricas relacionadas, com emojis relevantes.'',
       ''    Exemplo:'',
       ''    - '' @ [CHR 0xF0, CHR 0x9F, CHR 0x93, CHR 0x8A] @ '' **Receita**: US$ 2.7B (+8% vs Q3)'',
       ''    - '' @ [CHR 0xF0, CHR 0x9F, CHR 0x92, CHR 0xB0] @ '' **EBITDA**: US$ 200M (+11% vs Q3)'',
       '''']"

definition THEME_PROMPTS :: "(string \<times> string) list" where
  "THEME_PROMPTS =
     [(''Estrat'' @ [CHR 0xC3, CHR 0xA9] @ ''gia de Crescimento'',
       join [CHR 0x0A]
         ['''',
          ''**Foco do Relat'' @ [CHR 0xC3, CHR 0xB3] @ ''rio: Estrat'' @ [CHR 0xC3, CHR 0xA9] @ ''gia de Crescimento**'',
          ''O objetivo '' @ [CHR 0xC3, CHR 0xA9] @ '' identificar as principais alavancas de crescimento. Analise os dados para encontrar:'',
          ''- Canais com melhor performance (ROI, CPA, etc.) e potencial de otimiza'' @ [CHR 0xC3, CHR 0xA7, CHR 0xC3, CHR 0xA3] @ ''o.'',
          ''- Segmentos de audi'' @ [CHR 0xC3, CHR 0xAA] @ ''ncia com maior engajamento ou convers'' @ [CHR 0xC3, CHR 0xA3] @ ''o.'',
          ''- Oportunidades de mercado n'' @ [CHR 0xC3, CHR 0xA3] @ ''o exploradas com base nos dados e contexto da web.'',
          ''- An'' @ [CHR 0xC3, CHR 0xA1] @ ''lise competitiva, se houver dados para tal.'',
          ''Estruture a se'' @ [CHR 0xC3, CHR 0xA7, CHR 0xC3, CHR 0xA3] @ ''o '' @ [CHR 0x22] @ ''Implica'' @ [CHR 0xC3, CHR 0xA7, CHR 0xC3, CHR 0xB5] @ ''es e Oportunidades'' @ [CHR 0x22] @ '' com recomenda'' @ [CHR 0xC3, CHR 0xA7, CHR 0xC3, CHR 0xB5] @ ''es claras para impulsionar o crescimento.'']),
      (''Reconhecimento de Marca'',
       join [CHR 0x0A]
         ['''',
          ''**Foco do Relat'' @ [CHR 0xC3, CHR 0xB3] @ ''rio: Reconhecimento de Marca (Brand Awareness)**'',
          ''O objetivo '' @ [CHR 0xC3, CHR 0xA9] @ '' mensurar e entender a visibilidade e percep'' @ [CHR 0xC3, CHR 0xA7, CHR 0xC3, CHR 0xA3] @ ''o da marca. Analise os dados para encontrar:'',
          ''- Evolu'' @ [CHR 0xC3, CHR 0xA7, CHR 0xC3, CHR 0xA3] @ ''o do Share of Voice, alcance e impress'' @ [CHR 0xC3, CHR 0xB5] @ ''es.'',
          ''- An'' @ [CHR 0xC3, CHR 0xA1] @ ''lise de sentimento e men'' @ [CHR 0xC3, CHR 0xA7, CHR 0xC3, CHR 0xB5] @ ''es '' @ [CHR 0xC3, CHR 0xA0] @ '' marca (se houver dados de social listening).'',
          ''- Performance de campanhas de topo de funil (views, cliques, etc.).'',
          ''- Insights sobre a percep'' @ [CHR 0xC3, CHR 0xA7, CHR 0xC3, CHR 0xA3] @ ''o da marca pela audi'' @ [CHR 0xC3, CHR 0xAA] @ ''ncia.'',
          ''Destaque no '' @ [CHR 0x22] @ ''Resumo Estrat'' @ [CHR 0xC3, CHR 0xA9] @ ''gico'' @ [CHR 0x22] @ '' os principais KPIs que demonstram a sa'' @ [CHR 0xC3, CHR 0xBA] @ ''de da marca no per'' @ [CHR 0xC3, CHR 0xAD] @ ''odo.'']),
      (''An'' @ [CHR 0xC3, CHR 0xA1] @ ''lise de Mercado'',
       join [CHR 0x0A]
         ['''',
          ''**Foco do Relat'' @ [CHR 0xC3, CHR 0xB3] @ ''rio: An'' @ [CHR 0xC3, CHR 0xA1] @ ''lise de Mercado**'',
          ''O objetivo '' @ [CHR 0xC3, CHR 0xA9] @ '' fornecer um panorama do mercado e da posi'' @ [CHR 0xC3, CHR 0xA7, CHR 0xC3, CHR 0xA3] @ ''o do cliente. Analise os dados para:'',
          ''- Mapear os principais concorrentes e suas performances.'',
          ''- Identificar tend'' @ [CHR 0xC3, CHR 0xAA] @ ''ncias de consumo e comportamento do consumidor (dados TGI, se dispon'' @ [CHR 0xC3, CHR 0xAD] @ ''veis).'',
          ''- Avaliar o market share e oportunidades de posicionamento.'',
          ''- Usar a busca na web (se ativada) para contextualizar os dados com not'' @ [CHR 0xC3, CHR 0xAD] @ ''cias e movimentos recentes do setor.'',
          ''A conclus'' @ [CHR 0xC3, CHR 0xA3] @ ''o deve apresentar um diagn'' @ [CHR 0xC3, CHR 0xB3] @ ''stico claro da posi'' @ [CHR 0xC3, CHR 0xA7, CHR 0xC3, CHR 0xA3] @ ''o competitiva do cliente.'']),
      (''Planejamento de M'' @ [CHR 0xC3, CHR 0xAD] @ ''dia'',
       join [CHR 0x0A]
         ['''',
          ''**Foco do Relat'' @ [CHR 0xC3, CHR 0xB3] @ ''rio: Planejamento de M'' @ [CHR 0xC3, CHR 0xAD] @ ''dia**'',
          ''O objetivo '' @ [CHR 0xC3, CHR 0xA9] @ '' analisar dados para informar um futuro plano de m'' @ [CHR 0xC3, CHR 0xAD] @ ''dia. Procure por:'',
          ''- Performance hist'' @ [CHR 0xC3, CHR 0xB3] @ ''rica de diferentes canais e formatos.'',
          ''- Insights de audi'' @ [CHR 0xC3, CHR 0xAA] @ ''ncia (TGI, etc.) para guiar a sele'' @ [CHR 0xC3, CHR 0xA7, CHR 0xC3, CHR 0xA3] @ ''o de canais.'',
          ''- An'' @ [CHR 0xC3, CHR 0xA1] @ ''lise de sazonalidade e picos de interesse (Google Trends, se aplic'' @ [CHR 0xC3, CHR 0xA1] @ ''vel).'',
          ''- Recomenda'' @ [CHR 0xC3, CHR 0xA7, CHR 0xC3, CHR 0xB5] @ ''es de mix de canais e or'' @ [CHR 0xC3, CHR 0xA7] @ ''amento com base nos dados.'',
          ''A se'' @ [CHR 0xC3, CHR 0xA7, CHR 0xC3, CHR 0xA3] @ ''o '' @ [CHR 0x22] @ ''Implica'' @ [CHR 0xC3, CHR 0xA7, CHR 0xC3, CHR 0xB5] @ ''es e Oportunidades'' @ [CHR 0x22] @ '' deve ser um pr'' @ [CHR 0xC3, CHR 0xA9] @ ''-planejamento t'' @ [CHR 0xC3, CHR 0xA1] @ ''tico.'']),
      (''An'' @ [CHR 0xC3, CHR 0xA1] @ ''lise de Social Media'',
       join [CHR 0x0A]
         ['''',
          ''**Foco do Relat'' @ [CHR 0xC3, CHR 0xB3] @ ''rio: An'' @ [CHR 0xC3, CHR 0xA1] @ ''lise de Social Media**'',
          ''O objetivo '' @ [CHR 0xC3, CHR 0xA9] @ '' avaliar a performance e o impacto das redes sociais. Analise:'',
          ''- M'' @ [CHR 0xC3, CHR 0xA9] @ ''tricas de engajamento (curtidas, coment'' @ [CHR 0xC3, CHR 0xA1] @ ''rios, compartilhamentos) por plataforma.'',
          ''- Crescimento da base de seguidores.'',
          ''- An'' @ [CHR 0xC3, CHR 0xA1] @ ''lise de conte'' @ [CHR 0xC3, CHR 0xBA] @ ''do: quais formatos e temas performam melhor?'',
          ''- An'' @ [CHR 0xC3, CHR 0xA1] @ ''lise de sentimento e principais temas de conversa.'',
          ''- Performance de campanhas de social ads (se houver dados).'']),
      (''Relat'' @ [CHR 0xC3, CHR 0xB3] @ ''rio de Performance (P'' @ [CHR 0xC3, CHR 0xB3] @ ''s-Campanha)'',
       join [CHR 0x0A]
         ['''',
          ''**Foco do Relat'' @ [CHR 0xC3, CHR 0xB3] @ ''rio: Performance de Campanha**'',
          ''O objetivo '' @ [CHR 0xC3, CHR 0xA9] @ '' fazer uma an'' @ [CHR 0xC3, CHR 0xA1] @ ''lise detalhada dos resultados de uma campanha finalizada. Foque em:'',
          ''- Comparar os resultados com os KPIs e metas estabelecidas no briefing.'',
          ''- Analisar o funil de convers'' @ [CHR 0xC3, CHR 0xA3] @ ''o (impress'' @ [CHR 0xC3, CHR 0xB5] @ ''es, cliques, leads, vendas).'',
          ''- Calcular m'' @ [CHR 0xC3, CHR 0xA9] @ ''tricas chave como CPA, CPL, ROAS (se dados dispon'' @ [CHR 0xC3, CHR 0xAD] @ ''veis).'',
          ''- Identificar os principais aprendizados e otimiza'' @ [CHR 0xC3, CHR 0xA7, CHR 0xC3, CHR 0xB5] @ ''es realizadas.'',
          ''O '' @ [CHR 0x22] @ ''Resumo Estrat'' @ [CHR 0xC3, CHR 0xA9] @ ''gico'' @ [CHR 0x22] @ '' deve responder claramente: '' @ [CHR 0x22] @ ''A campanha atingiu seus objetivos?'' @ [CHR 0x22]]),
      (''Branding & Posicionamento'',
       join [CHR 0x0A]
         ['''',
          ''**Foco do Relat'' @ [CHR 0xC3, CHR 0xB3] @ ''rio: Branding & Posicionamento**'',
          ''O objetivo '' @ [CHR 0xC3, CHR 0xA9] @ '' analisar como a marca est'' @ [CHR 0xC3, CHR 0xA1] @ '' sendo percebida. Analise:'',
          ''- Dados de Brand Lift, Health Tracking, e pesquisas de marca.'',
          ''- Men'' @ [CHR 0xC3, CHR 0xA7, CHR 0xC3, CHR 0xB5] @ ''es na m'' @ [CHR 0xC3, CHR 0xAD] @ ''dia e an'' @ [CHR 0xC3, CHR 0xA1] @ ''lise de sentimento.'',
          ''- Territ'' @ [CHR 0xC3, CHR 0xB3] @ ''rios de comunica'' @ [CHR 0xC3, CHR 0xA7, CHR 0xC3, CHR 0xA3] @ ''o associados '' @ [CHR 0xC3, CHR 0xA0] @ '' marca.'',
          ''- Comparativos com concorrentes em termos de percep'' @ [CHR 0xC3, CHR 0xA7, CHR 0xC3, CHR 0xA3] @ ''o.'',
          ''O relat'' @ [CHR 0xC3, CHR 0xB3] @ ''rio deve concluir com um diagn'' @ [CHR 0xC3, CHR 0xB3] @ ''stico sobre a for'' @ [CHR 0xC3, CHR 0xA7] @ ''a e o posicionamento atual da marca.'']),
      (''An'' @ [CHR 0xC3, CHR 0xA1] @ ''lise de Concorr'' @ [CHR 0xC3, CHR 0xAA] @ ''ncia'',
       join [CHR 0x0A]
         ['''',
          ''**Foco do Relat'' @ [CHR 0xC3, CHR 0xB3] @ ''rio: An'' @ [CHR 0xC3, CHR 0xA1] @ ''lise de Concorr'' @ [CHR 0xC3, CHR 0xAA] @ ''ncia**'',
          ''O objetivo '' @ [CHR 0xC3, CHR 0xA9] @ '' monitorar e analisar as a'' @ [CHR 0xC3, CHR 0xA7, CHR 0xC3, CHR 0xB5] @ ''es dos concorrentes. Busque por:'',
          ''- Exemplos de campanhas e pe'' @ [CHR 0xC3, CHR 0xA7] @ ''as criativas dos concorrentes.'',
          ''- Estimativas de investimento de m'' @ [CHR 0xC3, CHR 0xAD] @ ''dia (se houver dados).'',
          ''- Share of Voice e Share of Mind.'',
          ''- An'' @ [CHR 0xC3, CHR 0xA1] @ ''lise de posicionamento e territ'' @ [CHR 0xC3, CHR 0xB3] @ ''rios de comunica'' @ [CHR 0xC3, CHR 0xA7, CHR 0xC3, CHR 0xA3] @ ''o dos concorrentes.'',
          ''A se'' @ [CHR 0xC3, CHR 0xA7, CHR 0xC3, CHR 0xA3] @ ''o '' @ [CHR 0x22] @ ''Implica'' @ [CHR 0xC3, CHR 0xA7, CHR 0xC3, CHR 0xB5] @ ''es e Oportunidades'' @ [CHR 0x22] @ '' deve focar em como o cliente pode se diferenciar ou reagir.''])]"


subsection \<open>generateReportDraft\<close>

definition themePrompt :: "string \<Rightarrow> js_value" where
  "themePrompt theme =
     (if ToBoolean (get_property THEME_PROMPTS theme) then get_property THEME_PROMPTS theme
      else String (''Analise os dados fornecidos e gere um relat'' @ [CHR 0xC3, CHR 0xB3] @ ''rio conciso e estrat'' @ [CHR 0xC3, CHR 0xA9] @ ''gico.''))"

definition toneInstruction :: "string \<Rightarrow> string" where
  "toneInstruction tone = ([CHR 0x0A] @ ''1.4 Tom Espec'' @ [CHR 0xC3, CHR 0xAD] @ ''fico para este Relat'' @ [CHR 0xC3, CHR 0xB3] @ ''rio: Adote um tom **'') @ tone @ ''**.''"

definition finalSystemPrompt :: "string \<Rightarrow> string" where
  "finalSystemPrompt tone = MARY_PERSONA_PROMPT @ toneInstruction tone"

definition fullUserPrompt :: "string \<Rightarrow> string \<Rightarrow> string" where
  "fullUserPrompt theme prompt = ToString (themePrompt theme) @ ([CHR 0x0A] @ [CHR 0x0A] @ ''**Briefing do Usu'' @ [CHR 0xC3, CHR 0xA1] @ ''rio:**'' @ [CHR 0x0A]) @ prompt"

text \<open>The request of the draft, and the call: the result is
  \<^verbatim>\<open>{ text, groundingChunks }\<close>; whatever the call throws is replaced by one
  fixed error.\<close>

definition draftRequest :: "string \<Rightarrow> string \<Rightarrow> GeminiPart list \<Rightarrow> bool \<Rightarrow> string \<Rightarrow> GenerateContentParameters" where
  "draftRequest theme prompt fileParts useGoogleSearch tone =
     \<lparr>model = ''gemini-2.5-pro'',
      parts = TextPart (fullUserPrompt theme prompt) # fileParts,
      systemInstruction = Some (finalSystemPrompt tone),
      googleSearch = useGoogleSearch,
      thinkingBudget = Some 32768, temperature = None, maxOutputTokens = None\<rparr>"

definition generateReportDraft ::
  "generateContent \<Rightarrow> string \<Rightarrow> string \<Rightarrow> GeminiPart list \<Rightarrow> bool \<Rightarrow> string \<Rightarrow>
   thrown + (string option \<times> GroundingChunk list option)" where
  "generateReportDraft ai theme prompt fileParts useGoogleSearch tone =
     (case ai (draftRequest theme prompt fileParts useGoogleSearch tone) of
        Inl e \<Rightarrow> Inl (Error ''Failed to generate report draft. Please check the console for details.'')
      | Inr response \<Rightarrow> Inr (response_text response, groundingChunks response))"

subsection \<open>The two suggestions\<close>

text \<open>
  Each function makes one call inside \<^verbatim>\<open>try\<close>; the \<^verbatim>\<open>catch\<close> returns
  the empty string. Reading \<^verbatim>\<open>response.text.trim()\<close> of a response without
  text throws inside the \<^verbatim>\<open>try\<close> as well. The result type keeps the
  possibility of a rejection, which the theorems below exclude.
\<close>

definition imagePromptRequest :: "string option \<Rightarrow> GenerateContentParameters" where
  "imagePromptRequest reportContent =
     \<lparr>model = ''gemini-2.5-flash'',
      parts = [TextPart ((''Baseado no seguinte relat'' @ [CHR 0xC3, CHR 0xB3] @ ''rio, crie um prompt curto (m'' @ [CHR 0xC3, CHR 0xA1] @ ''ximo 15 palavras) para gerar uma imagem de capa. O prompt deve ser conceitual, simb'' @ [CHR 0xC3, CHR 0xB3] @ ''lico e profissional. Exemplo: '' @ [CHR 0x22] @ ''Uma ponte de dados conectando estrat'' @ [CHR 0xC3, CHR 0xA9] @ ''gia e resultados, em estilo abstrato.'' @ [CHR 0x22] @ [CHR 0x0A] @ [CHR 0x0A] @ ''RELAT'' @ [CHR 0xC3, CHR 0x93] @ ''RIO:'' @ [CHR 0x0A]) @ template reportContent)],
      systemInstruction = None, googleSearch = False, thinkingBudget = None,
      temperature = Some (8 / 10), maxOutputTokens = Some 50\<rparr>"

definition generateImagePromptSuggestion :: "generateContent \<Rightarrow> string option \<Rightarrow> thrown + string" where
  "generateImagePromptSuggestion ai reportContent =
     (case ai (imagePromptRequest reportContent) of
        Inl e \<Rightarrow> Inr []
      | Inr response \<Rightarrow>
          (case response_text response of
             None \<Rightarrow> Inr []
           | Some t \<Rightarrow> Inr (removeQuotes (trim t))))"

definition imageStyleRequest :: "string option \<Rightarrow> GenerateContentParameters" where
  "imageStyleRequest reportContent =
     \<lparr>model = ''gemini-2.5-flash'',
      parts = [TextPart ((''Baseado no tom e conte'' @ [CHR 0xC3, CHR 0xBA] @ ''do do seguinte relat'' @ [CHR 0xC3, CHR 0xB3] @ ''rio, sugira um estilo visual para as imagens de uma apresenta'' @ [CHR 0xC3, CHR 0xA7, CHR 0xC3, CHR 0xA3] @ ''o (m'' @ [CHR 0xC3, CHR 0xA1] @ ''ximo 5 palavras). Exemplos: '' @ [CHR 0x22] @ ''Fotorrealista, corporativo, tons de azul'' @ [CHR 0x22] @ '', '' @ [CHR 0x22] @ ''Ilustra'' @ [CHR 0xC3, CHR 0xA7, CHR 0xC3, CHR 0xA3] @ ''o vetorial, minimalista'' @ [CHR 0x22] @ '', '' @ [CHR 0x22] @ ''Arte linear, limpa e moderna'' @ [CHR 0x22] @ ''.'' @ [CHR 0x0A] @ [CHR 0x0A] @ ''RELAT'' @ [CHR 0xC3, CHR 0x93] @ ''RIO:'' @ [CHR 0x0A]) @ template reportContent)],
      systemInstruction = None, googleSearch = False, thinkingBudget = None,
      temperature = Some (7 / 10), maxOutputTokens = Some 30\<rparr>"

definition generateImageStyleSuggestion :: "generateContent \<Rightarrow> string option \<Rightarrow> thrown + string" where
  "generateImageStyleSuggestion ai reportContent =
     (case ai (imageStyleRequest reportContent) of
        Inl e \<Rightarrow> Inr []
      | Inr response \<Rightarrow>
          (case response_text response of
             None \<Rightarrow> Inr []
           | Some t \<Rightarrow> Inr (removeQuotes (trim t))))"

section \<open>utils/fileHelper.ts\<close>

text \<open>
  A \<^verbatim>\<open>File\<close> has a name and a declared type. What reading it yields belongs to
  the browser: a \<^verbatim>\<open>FileReader\<close> fires \<^verbatim>\<open>onerror\<close>, or \<^verbatim>\<open>onload\<close> with
  its result (for an array buffer the source also provides for a missing result).
  The SheetJS library is not part of the repository: \<^verbatim>\<open>XLSX.read\<close> and
  \<^verbatim>\<open>XLSX.utils.sheet_to_csv\<close> are parameters, and each may throw. A workbook has
  its sheet names in order and its sheets by name.
\<close>

record File =
  name :: string
  type :: string

datatype 'a reader_event = onerror | onload 'a

record 'w workbook =
  SheetNames :: "string list"
  Sheets :: "string \<Rightarrow> 'w option"

record ('b, 'w) browser =
  readAsDataURL :: "File \<Rightarrow> string reader_event"
  readAsText :: "File \<Rightarrow> string reader_event"
  readAsArrayBuffer :: "File \<Rightarrow> 'b option reader_event"
  XLSX_read :: "'b \<Rightarrow> thrown + 'w workbook"
  sheet_to_csv :: "'w option \<Rightarrow> thrown + string"

text \<open>\<^verbatim>\<open>result.split(',')[1]\<close>: what stands between the first comma and the
  next one, \<^verbatim>\<open>undefined\<close> without a comma.\<close>

definition split_comma_1 :: "string \<Rightarrow> string option" where
  "split_comma_1 result =
     (case dropWhile (\<lambda>c. c \<noteq> CHR '','') result of
        [] \<Rightarrow> None
      | c # rest \<Rightarrow> Some (takeWhile (\<lambda>c. c \<noteq> CHR '','') rest))"

definition fileToBase64 :: "('b, 'w) browser \<Rightarrow> File \<Rightarrow> thrown + string option" where
  "fileToBase64 env file =
     (case readAsDataURL env file of
        onerror \<Rightarrow> Inl (NotAnError ''ProgressEvent'')
      | onload result \<Rightarrow> Inr (split_comma_1 result))"

definition fileToText :: "('b, 'w) browser \<Rightarrow> File \<Rightarrow> thrown + string" where
  "fileToText env file =
     (case readAsText env file of
        onerror \<Rightarrow> Inl (NotAnError ''ProgressEvent'')
      | onload result \<Rightarrow> Inr result)"

text \<open>The \<^verbatim>\<open>forEach\<close> over the sheet names, with \<^verbatim>\<open>fullText\<close> as
  accumulator; an exception of the library leaves the loop.\<close>

fun forEach_sheet :: "('b, 'w) browser \<Rightarrow> 'w workbook \<Rightarrow> string list \<Rightarrow> string \<Rightarrow> thrown + string" where
  "forEach_sheet env workbook [] fullText = Inr fullText"
| "forEach_sheet env workbook (sheetName # sheetNames) fullText =
     (case sheet_to_csv env (Sheets workbook sheetName) of
        Inl e \<Rightarrow> Inl e
      | Inr csv \<Rightarrow>
          forEach_sheet env workbook sheetNames
            (fullText @ ''--- START OF SHEET: '' @ sheetName @ ('' ---'' @ [CHR 0x0A]) @ csv @ ([CHR 0x0A] @ ''--- END OF SHEET: '') @ sheetName @ ('' ---'' @ [CHR 0x0A] @ [CHR 0x0A])))"

definition convertExcelToText :: "('b, 'w) browser \<Rightarrow> File \<Rightarrow> thrown + string" where
  "convertExcelToText env file =
     (case readAsArrayBuffer env file of
        onerror \<Rightarrow> Inl (NotAnError ''ProgressEvent'')
      | onload None \<Rightarrow> Inl (Error ''Failed to read file.'')
      | onload (Some data') \<Rightarrow>
          (case XLSX_read env data' of
             Inl e \<Rightarrow> Inl e
           | Inr workbook \<Rightarrow>
               (case forEach_sheet env workbook (SheetNames workbook) [] of
                  Inl e \<Rightarrow> Inl e
                | Inr fullText \<Rightarrow> Inr (trim fullText))))"

section \<open>components/ReportGenerator.tsx\<close>

subsection \<open>The state of the component\<close>

record Client =
  client_id :: string
  client_name :: string

definition clientGroups :: "(string \<times> Client list) list" where
  "clientGroups =
     [(''Cliente SP'',
         [\<lparr>client_id = ''betmgm'', client_name = ''BetMGM''\<rparr>,
          \<lparr>client_id = ''braskem'', client_name = ''Braskem''\<rparr>,
          \<lparr>client_id = ''pagbank'', client_name = ''PagBank''\<rparr>,
          \<lparr>client_id = ''mrv'', client_name = ''MRV''\<rparr>,
          \<lparr>client_id = ''nio'', client_name = ''NIO''\<rparr>]),
      (''Cliente RJ'',
         [\<lparr>client_id = ''globo'', client_name = ''Globo / G1 / Gshow''\<rparr>,
          \<lparr>client_id = ''petrobras'', client_name = ''Petrobras / BR''\<rparr>,
          \<lparr>client_id = ''oi'', client_name = ''Oi''\<rparr>,
          \<lparr>client_id = ''bobs'', client_name = (''Bob'' @ [CHR 0xE2, CHR 0x80, CHR 0x99] @ ''s'')\<rparr>]),
      (''Cliente DF'',
         [\<lparr>client_id = ''govfed'', client_name = ''Governo Federal / Sebrae / Banco do Brasil''\<rparr>]),
      (''Unidade Dreamers'',
         [\<lparr>client_id = ''dreamfactory'', client_name = ''Dream Factory''\<rparr>,
          \<lparr>client_id = ''convert'', client_name = ''Convert+Performance''\<rparr>,
          \<lparr>client_id = ''alab'', client_name = ''A-LAB / NDAR / +Xou''\<rparr>])]"

text \<open>The fields of the form, which the handler reads.\<close>

record form =
  selectedClient :: string
  selectedTheme :: string
  campaignName :: string
  selectedTone :: string
  brief :: string
  knowledgeBaseFiles :: "File list"
  useGoogleSearch :: bool

text \<open>The fields of the state that the handler writes (\<open>error'\<close> and \<open>pptxUrl'\<close> are
  the state variables \<^verbatim>\<open>error\<close> and \<^verbatim>\<open>pptxUrl\<close>).\<close>

record state =
  loading :: "string option"
  error' :: "string option"
  draftResult :: "string option"
  editedDraft :: "string option"
  sources :: "GroundingChunk list"
  generatedImage :: "string option"
  isEditing :: bool
  pptxUrl' :: "string option"
  pptxError :: "string option"
  gammaThemes :: "theme list"
  selectedGammaTheme :: string
  imagePrompt :: string
  imageStylePrompt :: string
  loadingSuggestions :: bool

subsection \<open>handleSubmitDraft\<close>

text \<open>The callback mapped over the files: one part for one file.\<close>

definition filePart :: "('b, 'w) browser \<Rightarrow> File \<Rightarrow> thrown + GeminiPart" where
  "filePart env file =
     (let fileType = type file; fileName = toLowerCase (name file) in
      if fileType = ''application/vnd.openxmlformats-officedocument.spreadsheetml.sheet'' \<or> endsWith fileName ''.xlsx'' then
        (case convertExcelToText env file of
           Inl e \<Rightarrow> Inl e
         | Inr textContent \<Rightarrow> Inr (TextPart ((''Conte'' @ [CHR 0xC3, CHR 0xBA] @ ''do do arquivo Excel '' @ [CHR 0x22]) @ name file @ ([CHR 0x22] @ '':'' @ [CHR 0x0A] @ [CHR 0x0A]) @ textContent)))
      else if fileType = ''text/csv'' \<or> endsWith fileName ''.csv'' then
        (case fileToText env file of
           Inl e \<Rightarrow> Inl e
         | Inr textContent \<Rightarrow> Inr (TextPart ((''Conte'' @ [CHR 0xC3, CHR 0xBA] @ ''do do arquivo CSV '' @ [CHR 0x22]) @ name file @ ([CHR 0x22] @ '':'' @ [CHR 0x0A] @ [CHR 0x0A]) @ textContent)))
      else if startsWith (type file) ''image/'' then
        (case fileToBase64 env file of
           Inl e \<Rightarrow> Inl e
         | Inr base64Data \<Rightarrow> Inr (InlineDataPart (type file) base64Data))
      else
        (case fileToBase64 env file of
           Inl e \<Rightarrow> Inl e
         | Inr base64Data \<Rightarrow> Inr (InlineDataPart (type file) base64Data)))"

text \<open>
  \<^verbatim>\<open>Promise.all\<close>: it rejects with the rejection that comes first in time, and
  otherwise fulfils with all values in the order of the promises. \<open>order\<close> lists
  the indices of the promises in the order in which they settle; a rejected promise
  that \<open>order\<close> leaves out counts after the listed ones.
\<close>

definition Promise_all :: "nat list \<Rightarrow> (thrown + 'a) list \<Rightarrow> thrown + 'a list" where
  "Promise_all order results =
     (case filter (\<lambda>i. i < length results \<and> isl (results ! i)) (order @ [0..<length results]) of
        [] \<Rightarrow> Inr (map projr results)
      | i # rest \<Rightarrow> Inl (projl (results ! i)))"

text \<open>\<^verbatim>\<open>err instanceof Error ? err.message : '...'\<close>\<close>

definition error_message :: "thrown \<Rightarrow> string" where
  "error_message err = (case err of Error message \<Rightarrow> message | NotAnError v \<Rightarrow> ''Ocorreu um erro desconhecido.'')"

definition clientName :: "string \<Rightarrow> string option" where
  "clientName selected =
     map_option client_name (find (\<lambda>c. client_id c = selected) (concat (map snd clientGroups)))"

definition userPrompt :: "form \<Rightarrow> string" where
  "userPrompt f =
     (let fileNames = join '', '' (map name (knowledgeBaseFiles f)) in
      (''Gere um rascunho de relat'' @ [CHR 0xC3, CHR 0xB3] @ ''rio para o cliente '' @ [CHR 0x22]) @ template (clientName (selectedClient f)) @ ([CHR 0x22] @ ''.'' @ [CHR 0x0A] @ ''**Detalhes do Projeto:**'' @ [CHR 0x0A] @ ''- **Nome da Campanha:** '') @
      (if campaignName f \<noteq> [] then campaignName f else (''N'' @ [CHR 0xC3, CHR 0xA3] @ ''o especificado'')) @ ([CHR 0x0A] @ ''- **Briefing Principal:** '' @ [CHR 0x22]) @ brief f @ ([CHR 0x22] @ [CHR 0x0A] @ ''- **Arquivos Anexados para An'' @ [CHR 0xC3, CHR 0xA1] @ ''lise:** '') @
      (if length fileNames > 0 then fileNames else ''Nenhum'') @ ''.'')"

text \<open>
  The handler, from the browser, the generation backend, the order in which the file
  promises settle, the form and the state. It yields the state after the handler and
  the requests made to the generation backend, in the order of their issue.
\<close>

definition handleSubmitDraft ::
  "('b, 'w) browser \<Rightarrow> generateContent \<Rightarrow> nat list \<Rightarrow> form \<Rightarrow> state \<Rightarrow> state \<times> GenerateContentParameters list" where
  "handleSubmitDraft env ai order f st =
     (let st = st\<lparr>loading := Some ''draft'', error' := None, draftResult := None, sources := [],
                    generatedImage := None, isEditing := False, pptxUrl' := None, pptxError := None,
                    gammaThemes := [], selectedGammaTheme := []\<rparr>
      in
      case Promise_all order (map (filePart env) (knowledgeBaseFiles f)) of
        Inl err \<Rightarrow> (st\<lparr>error' := Some (error_message err), loading := None\<rparr>, [])
      | Inr fileParts \<Rightarrow>
          (let request = draftRequest (selectedTheme f) (userPrompt f) fileParts (useGoogleSearch f) (selectedTone f) in
           case generateReportDraft ai (selectedTheme f) (userPrompt f) fileParts (useGoogleSearch f) (selectedTone f) of
             Inl err \<Rightarrow> (st\<lparr>error' := Some (error_message err), loading := None\<rparr>, [request])
           | Inr (text, groundingChunks') \<Rightarrow>
               (let st = st\<lparr>draftResult := text, editedDraft := text\<rparr>;
                    st = (case groundingChunks' of None \<Rightarrow> st | Some chunks \<Rightarrow> st\<lparr>sources := chunks\<rparr>);
                    st = st\<lparr>loadingSuggestions := True\<rparr>;
                    st = (case Promise_all [0, 1]
                                 [generateImagePromptSuggestion ai text, generateImageStyleSuggestion ai text] of
                            Inl suggestionError \<Rightarrow> st
                          | Inr suggestions \<Rightarrow>
                              (case suggestions of
                                 [promptSuggestion, styleSuggestion] \<Rightarrow>
                                   st\<lparr>imagePrompt := promptSuggestion, imageStylePrompt := styleSuggestion\<rparr>
                               | _ \<Rightarrow> st));
                    st = st\<lparr>loadingSuggestions := False\<rparr>
                in (st\<lparr>loading := None\<rparr>, [request, imagePromptRequest text, imageStyleRequest text]))))"

section \<open>Notions used in the statements\<close>

text \<open>
  Replies after which the callback leaves the timer armed, and replies that report
  the status \<^verbatim>\<open>pending\<close>.
\<close>

definition continues :: "GammaGenerationStatusResponse fetch_result \<Rightarrow> bool" where
  "continues reply =
     (case reply of
        Rejects e \<Rightarrow> False
      | Resolves response \<Rightarrow>
          ok response \<and>
          (case json response of
             None \<Rightarrow> False
           | Some result \<Rightarrow>
               \<not> (gen_status result = completed \<and> truthy (pptxUrl result)) \<and> gen_status result \<noteq> failed))"

definition answers_pending :: "GammaGenerationStatusResponse fetch_result \<Rightarrow> bool" where
  "answers_pending reply =
     (case reply of
        Rejects e \<Rightarrow> False
      | Resolves response \<Rightarrow>
          ok response \<and> (case json response of None \<Rightarrow> False | Some result \<Rightarrow> gen_status result = pending))"

definition answers_completed :: "string \<Rightarrow> GammaGenerationStatusResponse fetch_result \<Rightarrow> bool" where
  "answers_completed url reply =
     (case reply of
        Rejects e \<Rightarrow> False
      | Resolves response \<Rightarrow>
          ok response \<and>
          (case json response of
             None \<Rightarrow> False
           | Some result \<Rightarrow> gen_status result = completed \<and> pptxUrl result = Some url))"

definition completed_without_url :: "GammaGenerationStatusResponse fetch_result \<Rightarrow> bool" where
  "completed_without_url reply =
     (case reply of
        Rejects e \<Rightarrow> False
      | Resolves response \<Rightarrow>
          ok response \<and>
          (case json response of
             None \<Rightarrow> False
           | Some result \<Rightarrow> gen_status result = completed \<and> \<not> truthy (pptxUrl result)))"

text \<open>
  The entries the service keeps of a page; a reply that delivers a given page; a
  backend that serves a given list of pages, one per request, to the requests the
  loop makes from the cursor of the page before; a reply that delivers some page
  with \<^verbatim>\<open>hasMore = true\<close>.
\<close>

definition page_entries :: "'a themes_page \<Rightarrow> theme list" where
  "page_entries page = map (\<lambda>t. \<lparr>theme_id = theme_id t, theme_name = theme_name t\<rparr>) (data page)"

definition answers_page :: "'a themes_page \<Rightarrow> 'a themes_page fetch_result \<Rightarrow> bool" where
  "answers_page page reply =
     (case reply of Rejects e \<Rightarrow> False | Resolves response \<Rightarrow> ok response \<and> json response = Some page)"

fun serves :: "'a themes_backend \<Rightarrow> nat \<Rightarrow> string option \<Rightarrow> 'a themes_page list \<Rightarrow> bool" where
  "serves fetch n cursor [] = True"
| "serves fetch n cursor (page # pages) =
     (answers_page page (fetch n (targetUrl cursor)) \<and>
      serves fetch (Suc n) (nextCursor page) pages)"

definition answers_more :: "'a themes_page fetch_result \<Rightarrow> bool" where
  "answers_more reply =
     (case reply of
        Rejects e \<Rightarrow> False
      | Resolves response \<Rightarrow> ok response \<and> (case json response of None \<Rightarrow> False | Some page \<Rightarrow> hasMore page))"

subsection \<open>The error classifier of the specification\<close>






text \<open>
  The text of one sheet in the output: the start marker with the sheet's name, the
  sheet's table, the end marker with the sheet's name.
\<close>

definition sheet_block :: "string \<Rightarrow> string \<Rightarrow> string" where
  "sheet_block sheetName csv =
     ''--- START OF SHEET: '' @ sheetName @ '' ---'' @ [CHR 0x0A] @ csv @ [CHR 0x0A] @
     ''--- END OF SHEET: '' @ sheetName @ '' ---''"

text \<open>
  The marker lines that open and close the block of a sheet. The lines of a text are
  its pieces between line feeds; a marker line of a text is a line that begins as a
  start marker or as an end marker does.
\<close>

definition start_marker :: "string \<Rightarrow> string" where
  "start_marker sheetName = ''--- START OF SHEET: '' @ sheetName @ '' ---''"

definition end_marker :: "string \<Rightarrow> string" where
  "end_marker sheetName = ''--- END OF SHEET: '' @ sheetName @ '' ---''"

fun lines_of :: "string \<Rightarrow> string list" where
  "lines_of [] = [[]]"
| "lines_of (c # cs) =
     (if c = CHR 0x0A then [] # lines_of cs
      else (case lines_of cs of [] \<Rightarrow> [[c]] | l # ls \<Rightarrow> (c # l) # ls))"

definition is_start_marker :: "string \<Rightarrow> bool" where
  "is_start_marker l = startsWith l ''--- START OF SHEET: ''"

definition is_end_marker :: "string \<Rightarrow> bool" where
  "is_end_marker l = startsWith l ''--- END OF SHEET: ''"

definition marker_lines :: "string \<Rightarrow> string list" where
  "marker_lines s = filter (\<lambda>l. is_start_marker l \<or> is_end_marker l) (lines_of s)"

text \<open>
  The suggestion that an answer of the generation backend carries: the text of a
  response, trimmed and without double quotes, and the empty string for a call that
  threw or a response without text.
\<close>

definition suggestion_of :: "thrown + GenerateContentResponse \<Rightarrow> string" where
  "suggestion_of answer =
     (case answer of
        Inl e \<Rightarrow> []
      | Inr response \<Rightarrow> (case response_text response of None \<Rightarrow> [] | Some t \<Rightarrow> removeQuotes (trim t)))"

section \<open>Concrete backends\<close>

text \<open>Scripted backends on which the theorems below are instantiated.\<close>

definition status_reply :: "string \<Rightarrow> generation_status \<Rightarrow> string option \<Rightarrow> GammaGenerationStatusResponse fetch_result" where
  "status_reply gid st url =
     Resolves \<lparr>status = 200, body = [],
       json = Some \<lparr>generationId = gid, gen_status = st, gammaUrl = None, pptxUrl = url, error = None\<rparr>\<rparr>"

definition always_pending :: poll_backend where
  "always_pending k gid = status_reply gid pending None"

definition always_completed_without_url :: poll_backend where
  "always_completed_without_url k gid = status_reply gid completed None"

text \<open>A backend that answers the \<open>k\<close>-th status request with the \<open>k\<close>-th
  entry of a script, and fails once the script is used up.\<close>

definition scripted :: "GammaGenerationStatusResponse fetch_result list \<Rightarrow> poll_backend" where
  "scripted script k gid = (if k < length script then script ! k else Rejects ''script exhausted'')"

text \<open>A catalog of three themes on two pages, and a catalog that never ends.\<close>

definition two_pages :: "unit themes_backend" where
  "two_pages k q =
     (if k = 0 \<and> after q = None then
        Resolves \<lparr>status = 200, body = [],
          json = Some \<lparr>data = [\<lparr>theme_id = ''t1'', theme_name = ''Oasis''\<rparr>, \<lparr>theme_id = ''t2'', theme_name = ''Night''\<rparr>],
                        hasMore = True, nextCursor = Some ''c1''\<rparr>\<rparr>
      else if k = 1 \<and> after q = Some ''c1'' then
        Resolves \<lparr>status = 200, body = [],
          json = Some \<lparr>data = [\<lparr>theme_id = ''t3'', theme_name = ''Chalk''\<rparr>], hasMore = False, nextCursor = None\<rparr>\<rparr>
      else Rejects ''unexpected request'')"

definition endless_catalog :: "unit themes_backend" where
  "endless_catalog k q =
     Resolves \<lparr>status = 200, body = [],
       json = Some \<lparr>data = [\<lparr>theme_id = ''t1'', theme_name = ''Oasis''\<rparr>], hasMore = True, nextCursor = Some ''c1''\<rparr>\<rparr>"


text \<open>
  A browser that reads every file, and a library that parses every file as a workbook
  of the two sheets Jan and Fev; a sheet is represented by its delimited text.
\<close>

definition two_sheets :: "(unit, string) browser" where
  "two_sheets =
     \<lparr>readAsDataURL = (\<lambda>file. onload ''data:;base64,QQ==''),
      readAsText = (\<lambda>file. onload ''A''),
      readAsArrayBuffer = (\<lambda>file. onload (Some ())),
      XLSX_read = (\<lambda>buffer. Inr \<lparr>SheetNames = [''Jan'', ''Fev''],
                     Sheets = (\<lambda>n. if n = ''Jan'' then Some ''a,b'' else if n = ''Fev'' then Some ''c,d'' else None)\<rparr>),
      sheet_to_csv = (\<lambda>sheet. case sheet of None \<Rightarrow> Inl (Error ''no sheet'') | Some csv \<Rightarrow> Inr csv)\<rparr>"

text \<open>
  A browser whose array-buffer reads load without a result; the state and the form
  of a freshly mounted component; a generation backend that answers every request
  with a given text.
\<close>

definition unreadable :: "(unit, string) browser" where
  "unreadable = two_sheets\<lparr>readAsArrayBuffer := (\<lambda>file. onload None)\<rparr>"

definition initial_state :: state where
  "initial_state =
     \<lparr>loading = None, error' = None, draftResult = None, editedDraft = Some [], sources = [],
      generatedImage = None, isEditing = False, pptxUrl' = None, pptxError = None, gammaThemes = [],
      selectedGammaTheme = [], imagePrompt = [], imageStylePrompt = [], loadingSuggestions = False\<rparr>"

definition initial_form :: form where
  "initial_form =
     \<lparr>selectedClient = ''betmgm'', selectedTheme = fst (hd THEME_PROMPTS), campaignName = [],
      selectedTone = ''Anal'' @ [CHR 0xC3, CHR 0xAD] @ ''tico'', brief = [], knowledgeBaseFiles = [],
      useGoogleSearch = False\<rparr>"

definition answering :: "string \<Rightarrow> generateContent" where
  "answering t request = Inr \<lparr>response_text = Some t, groundingChunks = None\<rparr>"

text \<open>A generation backend that answers the draft and the style suggestion and
  throws on the prompt suggestion.\<close>

definition style_only :: generateContent where
  "style_only request =
     (if model request = ''gemini-2.5-pro'' then Inr \<lparr>response_text = Some ''# Draft'', groundingChunks = None\<rparr>
      else if maxOutputTokens request = Some 30
      then Inr \<lparr>response_text = Some ('' '' @ [CHR 0x22] @ ''Minimalista, tons de azul'' @ [CHR 0x22, CHR 0x0A]),
                 groundingChunks = None\<rparr>
      else Inl (Error ''503 Service Unavailable''))"

text \<open>A backend whose replies take 12 seconds: the first two report
  \<^verbatim>\<open>pending\<close>, all later ones \<^verbatim>\<open>completed\<close> with a result URL. And a
  backend with the given replies, each taking a given time.\<close>

definition slow_backend :: timed_backend where
  "slow_backend k gid =
     (12000, if k < 2 then status_reply gid pending None
             else status_reply gid completed (Some ''https://gamma.app/x.pptx''))"

definition after_ms :: "nat \<Rightarrow> poll_backend \<Rightarrow> timed_backend" where
  "after_ms latency fetch k gid = (latency, fetch k gid)"


text \<open>
  A workbook of one sheet whose first column holds, in three rows, the text of a start
  marker, a row of data and the text of an end marker; none of the cells has a comma,
  a quote or a line feed, so the delimited text of the sheet has the cells as they
  are. The browser is the one above with this workbook.
\<close>

definition marker_workbook :: "string workbook" where
  "marker_workbook =
     \<lparr>SheetNames = [''Fev''],
      Sheets = (\<lambda>n. if n = ''Fev''
                     then Some (''--- START OF SHEET: Jan ---'' @ [CHR 0x0A] @ ''1'' @ [CHR 0x0A] @ ''--- END OF SHEET: Jan ---'')
                     else None)\<rparr>"

definition marker_cells :: "(unit, string) browser" where
  "marker_cells = two_sheets\<lparr>XLSX_read := (\<lambda>buffer. Inr marker_workbook)\<rparr>"

section \<open>Properties of the export poll loop\<close>

lemma tick_continues:
  assumes "continues (fetch (polls s) gid)" and "attempts s < maxAttempts"
  shows "tick fetch gid s = (s\<lparr>attempts := attempts s + 1, polls := polls s + 1\<rparr>, None)"
  using assms
  by (auto simp: tick_def continues_def Let_def split: fetch_result.splits option.splits)

lemma tick_timeout:
  assumes "maxAttempts \<le> attempts s"
  shows "tick fetch gid s = (s\<lparr>attempts := attempts s + 1\<rparr>, Some (Inl PollTimeout))"
  using assms by (simp add: tick_def Let_def)

lemma interval_continues:
  assumes "\<And>k. k < maxAttempts \<Longrightarrow> continues (fetch k gid)"
    and "attempts s = polls s" and "polls s \<le> maxAttempts"
  shows "interval fetch gid s = (Inl PollTimeout, maxAttempts)"
  using assms(2,3)
proof (induction "maxAttempts - attempts s" arbitrary: s)
  case 0
  then have "maxAttempts \<le> attempts s" and "polls s = maxAttempts"
    by simp_all
  then show ?case
    by (subst interval.simps) (simp add: tick_timeout)
next
  case (Suc d)
  then have lt: "attempts s < maxAttempts"
    by simp
  with Suc.prems have "continues (fetch (polls s) gid)"
    by (simp add: assms(1))
  then have "tick fetch gid s = (s\<lparr>attempts := attempts s + 1, polls := polls s + 1\<rparr>, None)"
    using lt by (rule tick_continues)
  then have step: "interval fetch gid s = interval fetch gid (s\<lparr>attempts := attempts s + 1, polls := polls s + 1\<rparr>)"
    by (subst interval.simps) simp
  have "interval fetch gid (s\<lparr>attempts := attempts s + 1, polls := polls s + 1\<rparr>) = (Inl PollTimeout, maxAttempts)"
    using Suc.hyps(2) Suc.prems lt by (intro Suc.hyps(1)) simp_all
  with step show ?case
    by simp
qed

lemma answers_pending_continues: "answers_pending reply \<Longrightarrow> continues reply"
  by (auto simp: answers_pending_def continues_def split: fetch_result.splits option.splits)

lemma completed_without_url_continues: "completed_without_url reply \<Longrightarrow> continues reply"
  by (auto simp: completed_without_url_def continues_def split: fetch_result.splits option.splits)

subsection \<open>The run in time and the run of \<open>interval\<close>\<close>

lemma tick_on_reply:
  "tick fetch gid s =
     (if attempts s + 1 > maxAttempts then (s\<lparr>attempts := attempts s + 1\<rparr>, Some (Inl PollTimeout))
      else (s\<lparr>attempts := attempts s + 1, polls := polls s + 1\<rparr>, on_reply (fetch (polls s) gid)))"
  by (simp add: tick_def on_reply_def Let_def split: fetch_result.splits option.splits)

lemma continues_on_reply: "continues reply \<longleftrightarrow> on_reply reply = None"
  by (auto simp: continues_def on_reply_def split: fetch_result.splits option.splits)

lemma interval_timed_idle:
  "interval_timed fetch gid \<lparr>attempts = a, polls = p, in_flight = []\<rparr> =
     (if a + 1 > maxAttempts then (Inl PollTimeout, p)
      else interval_timed fetch gid
             \<lparr>attempts = a + 1, polls = p + 1,
              in_flight = [((a + 1) * pollInterval + fst (fetch p gid), snd (fetch p gid))]\<rparr>)"
  by (subst interval_timed.simps) (simp add: Let_def split: prod.splits)

lemma interval_timed_one:
  assumes "t < (a + 1) * pollInterval"
  shows "interval_timed fetch gid \<lparr>attempts = a, polls = p, in_flight = [(t, reply)]\<rparr> =
     (case on_reply reply of
        Some r \<Rightarrow> (r, p)
      | None \<Rightarrow> interval_timed fetch gid \<lparr>attempts = a, polls = p, in_flight = []\<rparr>)"
proof (cases "on_reply reply")
  case None
  with assms show ?thesis
    by (simp add: interval_timed.simps [of fetch gid "\<lparr>attempts = a, polls = p, in_flight = [(t, reply)]\<rparr>"]
          interval_timed.simps [of fetch gid "\<lparr>attempts = a, polls = p, in_flight = []\<rparr>"] Let_def)
next
  case (Some r)
  with assms show ?thesis
    by (simp add: interval_timed.simps [of fetch gid "\<lparr>attempts = a, polls = p, in_flight = [(t, reply)]\<rparr>"] Let_def)
qed

text \<open>One request whose reply arrives before the next tick.\<close>

lemma interval_timed_prompt_step:
  assumes "a < maxAttempts" and "fst (fetch p gid) < pollInterval"
  shows "interval_timed fetch gid \<lparr>attempts = a, polls = p, in_flight = []\<rparr> =
     (case on_reply (snd (fetch p gid)) of
        Some r \<Rightarrow> (r, p + 1)
      | None \<Rightarrow> interval_timed fetch gid \<lparr>attempts = a + 1, polls = p + 1, in_flight = []\<rparr>)"
proof -
  let ?t = "(a + 1) * pollInterval + fst (fetch p gid)"
  have "?t < (a + 1 + 1) * pollInterval"
    using assms(2) by simp
  then have "interval_timed fetch gid \<lparr>attempts = a + 1, polls = p + 1, in_flight = [(?t, snd (fetch p gid))]\<rparr> =
     (case on_reply (snd (fetch p gid)) of
        Some r \<Rightarrow> (r, p + 1)
      | None \<Rightarrow> interval_timed fetch gid \<lparr>attempts = a + 1, polls = p + 1, in_flight = []\<rparr>)"
    by (rule interval_timed_one)
  moreover have "interval_timed fetch gid \<lparr>attempts = a, polls = p, in_flight = []\<rparr> =
     interval_timed fetch gid \<lparr>attempts = a + 1, polls = p + 1, in_flight = [(?t, snd (fetch p gid))]\<rparr>"
    using assms(1) by (subst interval_timed_idle) simp
  ultimately show ?thesis
    by simp
qed

lemma interval_step:
  assumes "a < maxAttempts"
  shows "interval fetch gid \<lparr>attempts = a, polls = p\<rparr> =
     (case on_reply (fetch p gid) of
        Some r \<Rightarrow> (r, p + 1)
      | None \<Rightarrow> interval fetch gid \<lparr>attempts = a + 1, polls = p + 1\<rparr>)"
  using assms by (subst interval.simps) (simp add: tick_on_reply split: option.splits)

lemma interval_stop:
  assumes "maxAttempts \<le> a"
  shows "interval fetch gid \<lparr>attempts = a, polls = p\<rparr> = (Inl PollTimeout, p)"
  using assms by (subst interval.simps) (simp add: tick_on_reply)

text \<open>When every reply arrives before the next tick, the run in time is the run of
  \<open>interval\<close>.\<close>

lemma interval_timed_prompt:
  assumes "\<And>k. fst (fetch k gid) < pollInterval"
  shows "interval_timed fetch gid \<lparr>attempts = a, polls = p, in_flight = []\<rparr> =
         interval (\<lambda>k g. snd (fetch k g)) gid \<lparr>attempts = a, polls = p\<rparr>"
proof (induction "maxAttempts - a" arbitrary: a p)
  case 0
  then have "maxAttempts \<le> a"
    by simp
  then show ?case
    by (simp add: interval_timed_idle interval_stop)
next
  case (Suc d)
  then have lt: "a < maxAttempts"
    by simp
  have "interval_timed fetch gid \<lparr>attempts = a + 1, polls = p + 1, in_flight = []\<rparr> =
        interval (\<lambda>k g. snd (fetch k g)) gid \<lparr>attempts = a + 1, polls = p + 1\<rparr>"
    using Suc.hyps(2) by (intro Suc.hyps(1)) simp
  moreover have "fst (fetch p gid) < pollInterval"
    by (rule assms)
  ultimately show ?case
    using lt by (simp add: interval_timed_prompt_step interval_step split: option.splits)
qed


lemma on_reply_pending: "on_reply (status_reply gid pending url) = None"
  by (simp add: on_reply_def status_reply_def ok_def)

lemma on_reply_completed: "url \<noteq> [] \<Longrightarrow> on_reply (status_reply gid completed (Some url)) = Some (Inr url)"
  by (simp add: on_reply_def status_reply_def ok_def truthy_def)

lemma interval_timed_first_settling:
  assumes "\<And>k. a \<le> k \<Longrightarrow> k < n \<Longrightarrow> on_reply (snd (fetch k gid)) = None"
    and "on_reply (snd (fetch n gid)) = Some r" and "n < maxAttempts" and "a \<le> n"
    and "\<And>k. a \<le> k \<Longrightarrow> k \<le> n \<Longrightarrow> fst (fetch k gid) < pollInterval"
  shows "interval_timed fetch gid \<lparr>attempts = a, polls = a, in_flight = []\<rparr> = (r, Suc n)"
  using assms(1,4,5)
proof (induction "n - a" arbitrary: a)
  case 0
  then have "a = n"
    by simp
  moreover from 0 have "fst (fetch n gid) < pollInterval"
    by simp
  ultimately show ?case
    using assms(2,3) by (simp add: interval_timed_prompt_step)
next
  case (Suc d)
  then have lt: "a < n"
    by simp
  with Suc.prems have none: "on_reply (snd (fetch a gid)) = None" and prompt: "fst (fetch a gid) < pollInterval"
    by simp_all
  have "interval_timed fetch gid \<lparr>attempts = a + 1, polls = a + 1, in_flight = []\<rparr> = (r, Suc n)"
    using Suc.hyps(2) Suc.prems lt by (intro Suc.hyps(1)) simp_all
  with none prompt lt assms(3) show ?case
    by (simp add: interval_timed_prompt_step)
qed

text \<open>
  C1. When every status request of the loop is answered \<^verbatim>\<open>pending\<close>, the
  loop ends in the timeout error, and it has then issued 30 status requests: the
  callback that finds the counter above the ceiling of 30 rejects without a request,
  so of 31 pending answers the last is never asked for and there is no 32nd poll.
\<close>

theorem poll_all_pending_times_out:
  assumes "\<And>k. k < maxAttempts \<Longrightarrow> answers_pending (fetch k gid)"
  shows "pollForPptxGeneration fetch gid = (Inl PollTimeout, 30)"
proof -
  have "continues (fetch k gid)" if "k < maxAttempts" for k
    using assms [OF that]
    by (auto simp: answers_pending_def continues_def split: fetch_result.splits option.splits)
  then have "interval fetch gid \<lparr>attempts = 0, polls = 0\<rparr> = (Inl PollTimeout, maxAttempts)"
    by (intro interval_continues) simp_all
  then show ?thesis
    by (simp add: pollForPptxGeneration_def maxAttempts_def)
qed

theorem poll_all_pending_times_out_witness:
  "pollForPptxGeneration (scripted (replicate 31 (status_reply ''gen-1'' pending None))) ''gen-1'' =
     (Inl PollTimeout, 30)"
proof -
  have "answers_pending (scripted (replicate 31 (status_reply ''gen-1'' pending None)) k ''gen-1'')"
    if "k < maxAttempts" for k
    using that by (simp add: answers_pending_def scripted_def status_reply_def ok_def maxAttempts_def)
  then show ?thesis
    by (rule poll_all_pending_times_out)
qed

text \<open>
  C2. The statement that replies pending, pending, completed with a result URL always
  give exactly 3 polls fails: the timer does not wait for replies. When each reply
  takes 12 seconds, the polls of 5, 10, 15, 20 and 25 seconds have gone out before
  the third reply is handled at 27 seconds, so the loop resolves with the URL after
  5 polls.
\<close>

theorem slow_replies_more_polls_counterexample:
  "pollForPptxGeneration_timed slow_backend ''gen-1'' = (Inr ''https://gamma.app/x.pptx'', 5)"
proof -
  let ?p = "status_reply ''gen-1'' pending None"
  let ?c = "status_reply ''gen-1'' completed (Some ''https://gamma.app/x.pptx'')"
  let ?run = "interval_timed slow_backend ''gen-1''"
  note ev = Let_def slow_backend_def pollInterval_def maxAttempts_def on_reply_pending on_reply_completed
  have s0: "?run \<lparr>attempts = 0, polls = 0, in_flight = []\<rparr> =
            ?run \<lparr>attempts = 1, polls = 1, in_flight = [(17000, ?p)]\<rparr>"
    by (subst interval_timed.simps) (simp add: ev del: One_nat_def)
  have s1: "?run \<lparr>attempts = 1, polls = 1, in_flight = [(17000, ?p)]\<rparr> =
            ?run \<lparr>attempts = 2, polls = 2, in_flight = [(17000, ?p), (22000, ?p)]\<rparr>"
    by (subst interval_timed.simps) (simp add: ev del: One_nat_def)
  have s2: "?run \<lparr>attempts = 2, polls = 2, in_flight = [(17000, ?p), (22000, ?p)]\<rparr> =
            ?run \<lparr>attempts = 3, polls = 3, in_flight = [(17000, ?p), (22000, ?p), (27000, ?c)]\<rparr>"
    by (subst interval_timed.simps) (simp add: ev del: One_nat_def)
  have s3: "?run \<lparr>attempts = 3, polls = 3, in_flight = [(17000, ?p), (22000, ?p), (27000, ?c)]\<rparr> =
            ?run \<lparr>attempts = 4, polls = 4, in_flight = [(22000, ?p), (27000, ?c), (32000, ?c)]\<rparr>"
    by (subst interval_timed.simps) (simp add: ev del: One_nat_def)
  have s4: "?run \<lparr>attempts = 4, polls = 4, in_flight = [(22000, ?p), (27000, ?c), (32000, ?c)]\<rparr> =
            ?run \<lparr>attempts = 5, polls = 5, in_flight = [(27000, ?c), (32000, ?c), (37000, ?c)]\<rparr>"
    by (subst interval_timed.simps) (simp add: ev del: One_nat_def)
  have s5: "?run \<lparr>attempts = 5, polls = 5, in_flight = [(27000, ?c), (32000, ?c), (37000, ?c)]\<rparr> =
            (Inr ''https://gamma.app/x.pptx'', 5)"
    by (subst interval_timed.simps) (simp add: ev del: One_nat_def)
  show ?thesis
    by (simp only: pollForPptxGeneration_timed_def s0 s1 s2 s3 s4 s5)
qed

text \<open>
  C2, as amended. When the first three status requests are answered
  \<^verbatim>\<open>pending\<close>, \<^verbatim>\<open>pending\<close> and \<^verbatim>\<open>completed\<close> with a (non-empty) result
  URL, and each of these replies arrives before the next tick of the interval, the
  loop resolves with that URL and has issued exactly 3 status requests: the timer is
  cleared on resolution and no further request follows.
\<close>

theorem poll_resolves_after_three_prompt_replies:
  assumes "answers_pending (snd (fetch 0 gid))" and "answers_pending (snd (fetch 1 gid))"
    and "answers_completed url (snd (fetch 2 gid))" and "url \<noteq> []"
    and "\<forall>k < 3. fst (fetch k gid) < pollInterval"
  shows "pollForPptxGeneration_timed fetch gid = (Inr url, 3)"
proof -
  have "on_reply (snd (fetch k gid)) = None" if "k < 2" for k
  proof -
    from that have "k = 0 \<or> k = 1"
      by arith
    with assms(1,2) show ?thesis
      by (auto simp: answers_pending_continues continues_on_reply [symmetric])
  qed
  moreover have "on_reply (snd (fetch 2 gid)) = Some (Inr url)"
    using assms(3,4)
    by (auto simp: answers_completed_def on_reply_def truthy_def split: fetch_result.splits option.splits)
  moreover have "fst (fetch k gid) < pollInterval" if "k \<le> 2" for k
    using assms(5) that by simp
  ultimately have "interval_timed fetch gid \<lparr>attempts = 0, polls = 0, in_flight = []\<rparr> = (Inr url, Suc 2)"
    by (intro interval_timed_first_settling) (simp_all add: maxAttempts_def)
  then show ?thesis
    by (simp add: pollForPptxGeneration_timed_def)
qed

theorem poll_resolves_after_three_prompt_replies_witness:
  "pollForPptxGeneration_timed
     (after_ms 800 (scripted [status_reply ''g'' pending None, status_reply ''g'' pending None,
                              status_reply ''g'' completed (Some ''https://gamma.app/x.pptx'')])) ''g''
   = (Inr ''https://gamma.app/x.pptx'', 3)"
  by (rule poll_resolves_after_three_prompt_replies)
     (simp_all add: after_ms_def scripted_def status_reply_def answers_pending_def answers_completed_def ok_def
        pollInterval_def)

text \<open>
  C10. A reply that reports \<^verbatim>\<open>completed\<close> without a result URL
  (\<^verbatim>\<open>pptxUrl\<close> absent or empty) neither resolves nor rejects: the
  callback leaves the timer armed, exactly as for \<^verbatim>\<open>pending\<close>. A job
  that stays in that state ends in the timeout error after 30 status requests.
\<close>

theorem completed_without_url_keeps_polling:
  "(completed_without_url (fetch (polls s) gid) \<and> attempts s < maxAttempts \<longrightarrow>
      tick fetch gid s = (s\<lparr>attempts := attempts s + 1, polls := polls s + 1\<rparr>, None)) \<and>
   ((\<forall>k < maxAttempts. completed_without_url (fetch k gid)) \<longrightarrow>
      pollForPptxGeneration fetch gid = (Inl PollTimeout, 30))"
proof (intro conjI impI)
  assume "completed_without_url (fetch (polls s) gid) \<and> attempts s < maxAttempts"
  then show "tick fetch gid s = (s\<lparr>attempts := attempts s + 1, polls := polls s + 1\<rparr>, None)"
    by (simp add: tick_continues completed_without_url_continues)
next
  assume "\<forall>k < maxAttempts. completed_without_url (fetch k gid)"
  then have "continues (fetch k gid)" if "k < maxAttempts" for k
    using that by (simp add: completed_without_url_continues)
  then have "interval fetch gid \<lparr>attempts = 0, polls = 0\<rparr> = (Inl PollTimeout, maxAttempts)"
    by (intro interval_continues) simp_all
  then show "pollForPptxGeneration fetch gid = (Inl PollTimeout, 30)"
    by (simp add: pollForPptxGeneration_def maxAttempts_def)
qed

theorem completed_without_url_keeps_polling_witness:
  "tick always_completed_without_url ''g'' \<lparr>attempts = 4, polls = 4\<rparr> = (\<lparr>attempts = 5, polls = 5\<rparr>, None) \<and>
   pollForPptxGeneration always_completed_without_url ''g'' = (Inl PollTimeout, 30)"
proof -
  have "completed_without_url (always_completed_without_url k ''g'')" for k
    by (simp add: completed_without_url_def always_completed_without_url_def status_reply_def ok_def truthy_def)
  then show ?thesis
    using completed_without_url_keeps_polling [of always_completed_without_url "\<lparr>attempts = 4, polls = 4\<rparr>" "''g''"]
    by (simp add: maxAttempts_def)
qed

section \<open>Properties of the catalog fetch\<close>

lemma themes_step_page:
  assumes "answers_page page (fetch n (targetUrl c))"
  shows "themes_step fetch acc c n = Inr (acc @ page_entries page, hasMore page, nextCursor page)"
  using assms
  by (auto simp: themes_step_def answers_page_def page_entries_def split: fetch_result.splits)

lemma themes_loop_pages:
  assumes "serves fetch n c pages" and "pages \<noteq> []"
    and "\<forall>p \<in> set (butlast pages). hasMore p" and "\<not> hasMore (last pages)"
  shows "themes_loop fetch acc True c n = Some (Inr (acc @ concat (map page_entries pages)), n + length pages)"
  using assms
proof (induction pages arbitrary: acc c n)
  case Nil
  then show ?case by simp
next
  case (Cons page pages)
  from Cons.prems(1) have step: "themes_step fetch acc c n = Inr (acc @ page_entries page, hasMore page, nextCursor page)"
    by (simp add: themes_step_page)
  show ?case
  proof (cases "pages = []")
    case True
    with Cons.prems(4) have "\<not> hasMore page" by simp
    then have "themes_loop fetch acc True c n = Some (Inr (acc @ page_entries page), Suc n)"
      using step
      by (subst themes_loop.simps) (simp add: themes_loop.simps [of _ _ False])
    with True show ?thesis by simp
  next
    case False
    with Cons.prems have more: "hasMore page" and rest: "serves fetch (Suc n) (nextCursor page) pages"
      and "\<forall>p \<in> set (butlast pages). hasMore p" and "\<not> hasMore (last pages)"
      by simp_all
    then have "themes_loop fetch (acc @ page_entries page) True (nextCursor page) (Suc n) =
        Some (Inr ((acc @ page_entries page) @ concat (map page_entries pages)), Suc n + length pages)"
      using False by (intro Cons.IH) simp_all
    then show ?thesis
      using step more by (subst themes_loop.simps) simp
  qed
qed

lemma themes_step_more:
  assumes "answers_more (fetch n (targetUrl c))"
  shows "\<exists>acc' c'. themes_step fetch acc c n = Inr (acc', True, c')"
  using assms
  by (auto simp: themes_step_def answers_more_def split: fetch_result.splits option.splits)

lemma themes_loop_never_returns:
  assumes always: "\<And>n q. answers_more (fetch n q)"
  shows "themes_loop fetch acc True c n = None"
proof -
  have "continue \<longrightarrow> f = fetch \<longrightarrow> False" if ret: "themes_loop f acc continue c n = Some r" for f acc continue c n r
  proof (rule themes_loop.raw_induct [where P = "\<lambda>f acc continue c n r. continue \<longrightarrow> f = fetch \<longrightarrow> False", OF _ ret])
    fix loop :: "'a themes_backend \<Rightarrow> theme list \<Rightarrow> bool \<Rightarrow> string option \<Rightarrow> nat \<Rightarrow> ((gamma_error + theme list) \<times> nat) option"
    fix f acc continue c n r
    assume IH: "\<And>f acc continue c n r. loop f acc continue c n = Some r \<Longrightarrow> continue \<longrightarrow> f = fetch \<longrightarrow> False"
      and unfolded: "(if continue
          then case themes_step f acc c n of
                 Inl e \<Rightarrow> Some (Inl e, Suc n)
               | Inr (allThemes', hasMore', afterCursor') \<Rightarrow> loop f allThemes' hasMore' afterCursor' (Suc n)
          else Some (Inr acc, n)) = Some r"
    show "continue \<longrightarrow> f = fetch \<longrightarrow> False"
    proof (intro impI)
      assume "continue" and "f = fetch"
      obtain acc' c' where "themes_step fetch acc c n = Inr (acc', True, c')"
        using themes_step_more [of fetch n c acc] always by blast
      with unfolded \<open>continue\<close> \<open>f = fetch\<close> have "loop fetch acc' True c' (Suc n) = Some r"
        by simp
      from IH [OF this] show False
        by simp
    qed
  qed
  then have "themes_loop fetch acc True c n \<noteq> Some r" for r
    by blast
  then show ?thesis
    by (intro iffD1 [OF not_Some_eq] allI)
qed

lemma themes_iterate_returns:
  assumes "themes_iterate k fetch (acc, continue, c, n) = Inr (acc', False, c', n')"
  shows "themes_loop fetch acc continue c n = Some (Inr acc', n')"
  using assms
proof (induction k arbitrary: acc continue c n)
  case 0
  then show ?case
    by (subst themes_loop.simps) simp
next
  case (Suc k)
  show ?case
  proof (cases continue)
    case False
    with Suc.prems show ?thesis
      by (subst themes_loop.simps) simp
  next
    case True
    with Suc.prems obtain a h d where step: "themes_step fetch acc c n = Inr (a, h, d)"
      and rest: "themes_iterate k fetch (a, h, d, Suc n) = Inr (acc', False, c', n')"
      by (auto split: sum.splits)
    from Suc.IH [OF rest] show ?thesis
      using True step by (subst themes_loop.simps) simp
  qed
qed

lemma themes_iterate_more:
  assumes "\<And>n q. answers_more (fetch n q)"
  shows "\<exists>acc' c'. themes_iterate k fetch (acc, True, c, n) = Inr (acc', True, c', n + k)"
proof (induction k arbitrary: acc c n)
  case 0
  show ?case by simp
next
  case (Suc k)
  obtain a d where step: "themes_step fetch acc c n = Inr (a, True, d)"
    using themes_step_more [of fetch n c acc] assms by blast
  from Suc.IH [of a d "Suc n"] show ?case
    using step by simp
qed

text \<open>
  C3. When the backend serves a non-empty list of pages, one per request, every page
  but the last with \<^verbatim>\<open>hasMore = true\<close> and the last with
  \<^verbatim>\<open>hasMore = false\<close>, the catalog fetch returns after as many requests as
  there are pages, and its result is the concatenation, in page order, of the
  \<^verbatim>\<open>{id, name}\<close> entries of the pages.
\<close>

theorem catalog_is_concatenation_of_pages:
  assumes "serves fetch 0 None pages" and "pages \<noteq> []"
    and "\<forall>p \<in> set (butlast pages). hasMore p" and "\<not> hasMore (last pages)"
  shows "listGammaThemes fetch = Some (Inr (concat (map page_entries pages)), length pages)"
proof -
  have "themes_loop fetch [] True None 0 = Some (Inr ([] @ concat (map page_entries pages)), 0 + length pages)"
    using assms by (rule themes_loop_pages)
  then show ?thesis
    by (simp add: listGammaThemes_def truthy_def apiKey_def)
qed

theorem catalog_is_concatenation_of_pages_witness:
  "listGammaThemes two_pages =
     Some (Inr [\<lparr>theme_id = ''t1'', theme_name = ''Oasis''\<rparr>, \<lparr>theme_id = ''t2'', theme_name = ''Night''\<rparr>,
                \<lparr>theme_id = ''t3'', theme_name = ''Chalk''\<rparr>], 2)"
  using catalog_is_concatenation_of_pages [of two_pages
      "[\<lparr>data = [\<lparr>theme_id = ''t1'', theme_name = ''Oasis''\<rparr>, \<lparr>theme_id = ''t2'', theme_name = ''Night''\<rparr>],
          hasMore = True, nextCursor = Some ''c1''\<rparr>,
        \<lparr>data = [\<lparr>theme_id = ''t3'', theme_name = ''Chalk''\<rparr>], hasMore = False, nextCursor = None\<rparr>]"]
  by (simp add: two_pages_def targetUrl_def truthy_def answers_page_def ok_def page_entries_def)

text \<open>
  C4. The claim that the catalog fetch bounds the number of pages it requests fails:
  against a backend that answers every request with \<^verbatim>\<open>hasMore = true\<close>
  and the same cursor the fetch never returns, and after 40 iterations it has issued
  40 requests and goes on.
\<close>

theorem catalog_unbounded_counterexample:
  "listGammaThemes endless_catalog = None \<and>
   themes_iterate 40 endless_catalog ([], True, None, 0) =
     Inr (replicate 40 \<lparr>theme_id = ''t1'', theme_name = ''Oasis''\<rparr>, True, Some ''c1'', 40)"
proof
  have "answers_more (endless_catalog n q)" for n q
    by (simp add: answers_more_def endless_catalog_def ok_def)
  then have "themes_loop endless_catalog [] True None 0 = None"
    by (rule themes_loop_never_returns)
  then show "listGammaThemes endless_catalog = None"
    by (simp add: listGammaThemes_def truthy_def apiKey_def)
next
  have step: "themes_step endless_catalog acc c n = Inr (acc @ [\<lparr>theme_id = ''t1'', theme_name = ''Oasis''\<rparr>], True, Some ''c1'')" for acc c n
    by (simp add: themes_step_def endless_catalog_def ok_def)
  have "themes_iterate k endless_catalog (acc, True, c, n) =
      Inr (acc @ replicate k \<lparr>theme_id = ''t1'', theme_name = ''Oasis''\<rparr>, True, (if k = 0 then c else Some ''c1''), n + k)" for k acc c n
    by (induction k arbitrary: acc c n) (simp_all add: step replicate_append_same)
  from this [of 40 "[]" None 0]
  show "themes_iterate 40 endless_catalog ([], True, None, 0) =
     Inr (replicate 40 \<lparr>theme_id = ''t1'', theme_name = ''Oasis''\<rparr>, True, Some ''c1'', 40)"
    by simp
qed

text \<open>
  C4, as amended. The catalog fetch has no bound of its own: it requests the next
  page as long as the last page reported \<^verbatim>\<open>hasMore = true\<close>. Against a
  backend that answers every request with such a page it never returns, and for
  every \<open>k\<close> it is still running after \<open>k\<close> iterations, having issued \<open>k\<close>
  requests.
\<close>

theorem catalog_fetch_has_no_page_bound:
  assumes "\<And>n q. answers_more (fetch n q)"
  shows "listGammaThemes fetch = None \<and>
         (\<forall>k. \<exists>acc c. themes_iterate k fetch ([], True, None, 0) = Inr (acc, True, c, k))"
proof
  have "themes_loop fetch [] True None 0 = None"
    using assms by (rule themes_loop_never_returns)
  then show "listGammaThemes fetch = None"
    by (simp add: listGammaThemes_def truthy_def apiKey_def)
next
  show "\<forall>k. \<exists>acc c. themes_iterate k fetch ([], True, None, 0) = Inr (acc, True, c, k)"
    using themes_iterate_more [of fetch _ "[]" None 0] assms by simp
qed

theorem catalog_fetch_has_no_page_bound_witness:
  "listGammaThemes endless_catalog = None \<and>
   (\<forall>k. \<exists>acc c. themes_iterate k endless_catalog ([], True, None, 0) = Inr (acc, True, c, k))"
  by (rule catalog_fetch_has_no_page_bound) (simp add: answers_more_def endless_catalog_def ok_def)

section \<open>Classification of the responses of the export backend\<close>







section \<open>Properties of the file normalisation\<close>

lemma strip_dash: "strip whiteSpace (CHR ''-'' # s) = CHR ''-'' # s"
  by (subst strip.simps) (simp add: whiteSpace_def)

lemma strip_rev_dash: "strip (map rev whiteSpace) (CHR ''-'' # s) = CHR ''-'' # s"
  by (subst strip.simps) (simp add: whiteSpace_def)

lemma strip_rev_line_feed: "strip (map rev whiteSpace) (CHR 0x0A # s) = strip (map rev whiteSpace) s"
  by (subst strip.simps) (simp add: whiteSpace_def)

lemma trim_trailing:
  assumes "s \<noteq> []" and "hd s = CHR ''-''" and "last s = CHR ''-''"
  shows "trim (s @ [CHR 0x0A, CHR 0x0A]) = s"
proof -
  from assms(1,2) obtain t where s: "s = CHR ''-'' # t"
    by (cases s) auto
  from assms(1,3) obtain u where r: "rev s = CHR ''-'' # u"
    by (cases "rev s") (auto simp: last_rev [symmetric] hd_rev)
  have "strip whiteSpace (s @ [CHR 0x0A, CHR 0x0A]) = s @ [CHR 0x0A, CHR 0x0A]"
    by (simp add: s strip_dash)
  moreover have "strip (map rev whiteSpace) (rev (s @ [CHR 0x0A, CHR 0x0A])) = rev s"
    by (simp add: r strip_rev_line_feed strip_rev_dash)
  ultimately show ?thesis
    by (simp add: trim_def)
qed

lemma trim_empty: "trim [] = []"
  by (simp add: trim_def strip.simps [of _ "[]"] whiteSpace_def)

lemma sheet_block_ends:
  "sheet_block n c \<noteq> []" "hd (sheet_block n c) = CHR ''-''" "last (sheet_block n c) = CHR ''-''"
  by (simp_all add: sheet_block_def)

lemma join_blocks_ends:
  assumes "names \<noteq> []"
  shows "join sep (map (\<lambda>n. sheet_block n (csv n)) names) \<noteq> [] \<and>
         hd (join sep (map (\<lambda>n. sheet_block n (csv n)) names)) = CHR ''-'' \<and>
         last (join sep (map (\<lambda>n. sheet_block n (csv n)) names)) = CHR ''-''"
  using assms
proof (induction names rule: list_nonempty_induct)
  case (single n)
  show ?case by (simp add: sheet_block_ends)
next
  case (cons n names)
  then obtain m ms where names: "names = m # ms"
    by (cases names) auto
  from cons.IH show ?case
    by (simp add: names sheet_block_ends hd_append)
qed

lemma forEach_sheet_blocks:
  assumes "\<forall>n \<in> set names. sheet_to_csv env (Sheets workbook n) = Inr (csv n)"
  shows "forEach_sheet env workbook names fullText =
         Inr (fullText @ concat (map (\<lambda>n. sheet_block n (csv n) @ [CHR 0x0A, CHR 0x0A]) names))"
  using assms
  by (induction names arbitrary: fullText) (simp_all add: sheet_block_def)

lemma concat_blocks_join:
  assumes "blocks \<noteq> []"
  shows "concat (map (\<lambda>b. b @ sep) blocks) = join sep blocks @ sep"
  using assms
proof (induction blocks rule: list_nonempty_induct)
  case (single b)
  show ?case by simp
next
  case (cons b blocks)
  then obtain c cs where "blocks = c # cs"
    by (cases blocks) auto
  with cons.IH show ?case by simp
qed

lemma convertExcelToText_blocks:
  assumes "readAsArrayBuffer env file = onload (Some buffer)" and "XLSX_read env buffer = Inr workbook"
    and "\<forall>n \<in> set (SheetNames workbook). sheet_to_csv env (Sheets workbook n) = Inr (csv n)"
  shows "convertExcelToText env file =
         Inr (join [CHR 0x0A, CHR 0x0A] (map (\<lambda>n. sheet_block n (csv n)) (SheetNames workbook)))"
proof (cases "SheetNames workbook = []")
  case True
  with assms show ?thesis
    by (simp add: convertExcelToText_def trim_empty)
next
  case False
  let ?blocks = "map (\<lambda>n. sheet_block n (csv n)) (SheetNames workbook)"
  have "forEach_sheet env workbook (SheetNames workbook) [] =
      Inr (concat (map (\<lambda>b. b @ [CHR 0x0A, CHR 0x0A]) ?blocks))"
    using forEach_sheet_blocks [OF assms(3), of "[]"] by (simp add: comp_def)
  also have "concat (map (\<lambda>b. b @ [CHR 0x0A, CHR 0x0A]) ?blocks) = join [CHR 0x0A, CHR 0x0A] ?blocks @ [CHR 0x0A, CHR 0x0A]"
    using False by (intro concat_blocks_join) simp
  finally have full: "forEach_sheet env workbook (SheetNames workbook) [] =
      Inr (join [CHR 0x0A, CHR 0x0A] ?blocks @ [CHR 0x0A, CHR 0x0A])" .
  have "trim (join [CHR 0x0A, CHR 0x0A] ?blocks @ [CHR 0x0A, CHR 0x0A]) = join [CHR 0x0A, CHR 0x0A] ?blocks"
    using join_blocks_ends [OF False, of "[CHR 0x0A, CHR 0x0A]" csv]
    by (intro trim_trailing) simp_all
  with assms(1,2) full show ?thesis
    by (simp add: convertExcelToText_def)
qed

subsection \<open>Marker lines\<close>

lemma lines_of_nonempty: "lines_of s \<noteq> []"
  by (induction s) (auto split: list.splits)

lemma lines_of_single: "CHR 0x0A \<notin> set s \<Longrightarrow> lines_of s = [s]"
  by (induction s) auto

lemma lines_of_append_line_feed: "lines_of (a @ CHR 0x0A # b) = lines_of a @ lines_of b"
  using lines_of_nonempty by (induction a) (auto split: list.splits)

lemma marker_lines_append_line_feed: "marker_lines (a @ CHR 0x0A # b) = marker_lines a @ marker_lines b"
  by (simp add: marker_lines_def lines_of_append_line_feed)

lemma marker_lines_empty: "marker_lines [] = []"
  by (simp add: marker_lines_def is_start_marker_def is_end_marker_def)

lemma marker_lines_start_marker:
  assumes "CHR 0x0A \<notin> set n"
  shows "marker_lines (start_marker n) = [start_marker n]"
proof -
  from assms have "lines_of (start_marker n) = [start_marker n]"
    by (intro lines_of_single) (simp add: start_marker_def)
  then show ?thesis
    by (simp add: marker_lines_def is_start_marker_def start_marker_def)
qed

lemma marker_lines_end_marker:
  assumes "CHR 0x0A \<notin> set n"
  shows "marker_lines (end_marker n) = [end_marker n]"
proof -
  from assms have "lines_of (end_marker n) = [end_marker n]"
    by (intro lines_of_single) (simp add: end_marker_def)
  then show ?thesis
    by (simp add: marker_lines_def is_end_marker_def end_marker_def)
qed

lemma sheet_block_markers: "sheet_block n c = start_marker n @ CHR 0x0A # c @ CHR 0x0A # end_marker n"
  by (simp add: sheet_block_def start_marker_def end_marker_def)

lemma marker_lines_sheet_block:
  assumes "CHR 0x0A \<notin> set n" and "marker_lines c = []"
  shows "marker_lines (sheet_block n c) = [start_marker n, end_marker n]"
  using assms
  by (simp add: sheet_block_markers marker_lines_append_line_feed marker_lines_start_marker marker_lines_end_marker)

lemma marker_lines_blocks:
  assumes "\<forall>n \<in> set names. CHR 0x0A \<notin> set n \<and> marker_lines (csv n) = []"
  shows "marker_lines (join [CHR 0x0A, CHR 0x0A] (map (\<lambda>n. sheet_block n (csv n)) names)) =
         concat (map (\<lambda>n. [start_marker n, end_marker n]) names)"
  using assms
proof (induction names rule: induct_list012)
  case 1
  show ?case by (simp add: marker_lines_empty)
next
  case (2 n)
  then show ?case by (simp add: marker_lines_sheet_block)
next
  case (3 n m ms)
  let ?rest = "join [CHR 0x0A, CHR 0x0A] (map (\<lambda>n. sheet_block n (csv n)) (m # ms))"
  have "join [CHR 0x0A, CHR 0x0A] (map (\<lambda>n. sheet_block n (csv n)) (n # m # ms)) =
      sheet_block n (csv n) @ CHR 0x0A # ([] @ CHR 0x0A # ?rest)"
    by simp
  then have "marker_lines (join [CHR 0x0A, CHR 0x0A] (map (\<lambda>n. sheet_block n (csv n)) (n # m # ms))) =
      marker_lines (sheet_block n (csv n)) @ marker_lines [] @ marker_lines ?rest"
    by (simp only: marker_lines_append_line_feed)
  moreover from 3 have "marker_lines ?rest = concat (map (\<lambda>n. [start_marker n, end_marker n]) (m # ms))"
    by simp
  moreover from 3 have "marker_lines (sheet_block n (csv n)) = [start_marker n, end_marker n]"
    by (simp add: marker_lines_sheet_block)
  ultimately show ?case
    by (simp add: marker_lines_empty)
qed

lemma marker_lines_header:
  assumes "CHR 0x0A \<notin> set fileName"
  shows "marker_lines ((''Conte'' @ [CHR 0xC3, CHR 0xBA] @ ''do do arquivo Excel '' @ [CHR 0x22]) @ fileName @ ([CHR 0x22] @ '':'' @ [CHR 0x0A] @ [CHR 0x0A]) @ s) = marker_lines s"
proof -
  let ?first = "(''Conte'' @ [CHR 0xC3, CHR 0xBA] @ ''do do arquivo Excel '' @ [CHR 0x22]) @ fileName @ [CHR 0x22] @ '':''"
  have "(''Conte'' @ [CHR 0xC3, CHR 0xBA] @ ''do do arquivo Excel '' @ [CHR 0x22]) @ fileName @ ([CHR 0x22] @ '':'' @ [CHR 0x0A] @ [CHR 0x0A]) @ s = ?first @ CHR 0x0A # ([] @ CHR 0x0A # s)"
    by simp
  then have "marker_lines ((''Conte'' @ [CHR 0xC3, CHR 0xBA] @ ''do do arquivo Excel '' @ [CHR 0x22]) @ fileName @ ([CHR 0x22] @ '':'' @ [CHR 0x0A] @ [CHR 0x0A]) @ s) = marker_lines ?first @ marker_lines [] @ marker_lines s"
    by (simp only: marker_lines_append_line_feed)
  moreover from assms have "lines_of ?first = [?first]"
    by (intro lines_of_single) simp
  then have "marker_lines ?first = []"
    by (simp add: marker_lines_def is_start_marker_def is_end_marker_def)
  ultimately show ?thesis
    by (simp add: marker_lines_empty)
qed

lemma start_markers_of_pairs:
  "filter is_start_marker (concat (map (\<lambda>n. [start_marker n, end_marker n]) names)) = map start_marker names"
  by (induction names) (simp_all add: is_start_marker_def start_marker_def end_marker_def)

lemma end_markers_of_pairs:
  "filter is_end_marker (concat (map (\<lambda>n. [start_marker n, end_marker n]) names)) = map end_marker names"
  by (induction names) (simp_all add: is_end_marker_def start_marker_def end_marker_def)

lemma start_markers_marker_lines: "filter is_start_marker (lines_of s) = filter is_start_marker (marker_lines s)"
  by (auto simp: marker_lines_def intro: filter_cong)

lemma end_markers_marker_lines: "filter is_end_marker (lines_of s) = filter is_end_marker (marker_lines s)"
  by (auto simp: marker_lines_def intro: filter_cong)

text \<open>
  C9. The claim that the output holds exactly one pair of markers per sheet fails: the
  text of a sheet is put between its markers as it is, so a workbook of one sheet
  whose cells hold the text of a start marker and of an end marker gives an output
  with two lines that begin as a start marker and two that begin as an end marker.
\<close>

theorem marker_cells_counterexample:
  "XLSX_read marker_cells () = Inr marker_workbook \<and>
   length (SheetNames marker_workbook) = 1 \<and>
   filePart marker_cells \<lparr>name = ''Vendas.xlsx'', type = []\<rparr> =
     Inr (TextPart ((''Conte'' @ [CHR 0xC3, CHR 0xBA] @ ''do do arquivo Excel '' @ [CHR 0x22]) @ ''Vendas.xlsx'' @ ([CHR 0x22] @ '':'' @ [CHR 0x0A] @ [CHR 0x0A]) @
       ''--- START OF SHEET: Fev ---'' @ [CHR 0x0A] @
       ''--- START OF SHEET: Jan ---'' @ [CHR 0x0A] @ ''1'' @ [CHR 0x0A] @ ''--- END OF SHEET: Jan ---'' @ [CHR 0x0A] @
       ''--- END OF SHEET: Fev ---'')) \<and>
   length (filter is_start_marker (lines_of ((''Conte'' @ [CHR 0xC3, CHR 0xBA] @ ''do do arquivo Excel '' @ [CHR 0x22]) @ ''Vendas.xlsx'' @ ([CHR 0x22] @ '':'' @ [CHR 0x0A] @ [CHR 0x0A]) @
       ''--- START OF SHEET: Fev ---'' @ [CHR 0x0A] @
       ''--- START OF SHEET: Jan ---'' @ [CHR 0x0A] @ ''1'' @ [CHR 0x0A] @ ''--- END OF SHEET: Jan ---'' @ [CHR 0x0A] @
       ''--- END OF SHEET: Fev ---''))) = 2 \<and>
   length (filter is_end_marker (lines_of ((''Conte'' @ [CHR 0xC3, CHR 0xBA] @ ''do do arquivo Excel '' @ [CHR 0x22]) @ ''Vendas.xlsx'' @ ([CHR 0x22] @ '':'' @ [CHR 0x0A] @ [CHR 0x0A]) @
       ''--- START OF SHEET: Fev ---'' @ [CHR 0x0A] @
       ''--- START OF SHEET: Jan ---'' @ [CHR 0x0A] @ ''1'' @ [CHR 0x0A] @ ''--- END OF SHEET: Jan ---'' @ [CHR 0x0A] @
       ''--- END OF SHEET: Fev ---''))) = 2"
proof -
  have "convertExcelToText marker_cells \<lparr>name = ''Vendas.xlsx'', type = []\<rparr> =
      Inr (join [CHR 0x0A, CHR 0x0A] (map (\<lambda>n. sheet_block n
        (''--- START OF SHEET: Jan ---'' @ [CHR 0x0A] @ ''1'' @ [CHR 0x0A] @ ''--- END OF SHEET: Jan ---'')) (SheetNames marker_workbook)))"
    by (rule convertExcelToText_blocks [where buffer = "()"])
       (simp_all add: marker_cells_def two_sheets_def marker_workbook_def)
  then have part: "filePart marker_cells \<lparr>name = ''Vendas.xlsx'', type = []\<rparr> =
     Inr (TextPart ((''Conte'' @ [CHR 0xC3, CHR 0xBA] @ ''do do arquivo Excel '' @ [CHR 0x22]) @ ''Vendas.xlsx'' @ ([CHR 0x22] @ '':'' @ [CHR 0x0A] @ [CHR 0x0A]) @
       ''--- START OF SHEET: Fev ---'' @ [CHR 0x0A] @
       ''--- START OF SHEET: Jan ---'' @ [CHR 0x0A] @ ''1'' @ [CHR 0x0A] @ ''--- END OF SHEET: Jan ---'' @ [CHR 0x0A] @
       ''--- END OF SHEET: Fev ---''))"
    by (simp add: filePart_def Let_def endsWith_def toLowerCase_def marker_workbook_def sheet_block_def)
  have starts: "length (filter is_start_marker (lines_of ((''Conte'' @ [CHR 0xC3, CHR 0xBA] @ ''do do arquivo Excel '' @ [CHR 0x22]) @ ''Vendas.xlsx'' @ ([CHR 0x22] @ '':'' @ [CHR 0x0A] @ [CHR 0x0A]) @
       ''--- START OF SHEET: Fev ---'' @ [CHR 0x0A] @
       ''--- START OF SHEET: Jan ---'' @ [CHR 0x0A] @ ''1'' @ [CHR 0x0A] @ ''--- END OF SHEET: Jan ---'' @ [CHR 0x0A] @
       ''--- END OF SHEET: Fev ---''))) = 2"
    by (simp add: is_start_marker_def)
  have ends: "length (filter is_end_marker (lines_of ((''Conte'' @ [CHR 0xC3, CHR 0xBA] @ ''do do arquivo Excel '' @ [CHR 0x22]) @ ''Vendas.xlsx'' @ ([CHR 0x22] @ '':'' @ [CHR 0x0A] @ [CHR 0x0A]) @
       ''--- START OF SHEET: Fev ---'' @ [CHR 0x0A] @
       ''--- START OF SHEET: Jan ---'' @ [CHR 0x0A] @ ''1'' @ [CHR 0x0A] @ ''--- END OF SHEET: Jan ---'' @ [CHR 0x0A] @
       ''--- END OF SHEET: Fev ---''))) = 2"
    by (simp add: is_end_marker_def)
  have "XLSX_read marker_cells () = Inr marker_workbook"
    by (simp add: marker_cells_def)
  moreover have "length (SheetNames marker_workbook) = 1"
    by (simp add: marker_workbook_def)
  ultimately show ?thesis
    using part starts ends by (simp only: simp_thms)
qed

text \<open>
  C9, as amended. For a spreadsheet file (declared type or \<^verbatim>\<open>.xlsx\<close> extension)
  that is read and parsed, the part produced is the text headed by the file's name and
  followed by one block per sheet, in the order of the workbook's sheet names, the
  blocks separated by an empty line; each block is the start marker with the sheet's
  name, the sheet's delimited text as it is, and the end marker with the sheet's name.
  When neither the file's name nor a sheet's name has a line feed and no line of a
  sheet's delimited text begins as a marker does, the marker lines of the output are
  exactly the start marker and the end marker of each sheet, sheet after sheet in the
  order of the workbook: one start marker and one end marker per sheet.
\<close>

theorem spreadsheet_text_has_one_marker_pair_per_sheet:
  assumes "type file = ''application/vnd.openxmlformats-officedocument.spreadsheetml.sheet'' \<or> endsWith (toLowerCase (name file)) ''.xlsx''"
    and "readAsArrayBuffer env file = onload (Some buffer)" and "XLSX_read env buffer = Inr workbook"
    and "\<forall>n \<in> set (SheetNames workbook). sheet_to_csv env (Sheets workbook n) = Inr (csv n)"
    and "CHR 0x0A \<notin> set (name file)"
    and "\<forall>n \<in> set (SheetNames workbook). CHR 0x0A \<notin> set n \<and> marker_lines (csv n) = []"
  shows "(let out = (''Conte'' @ [CHR 0xC3, CHR 0xBA] @ ''do do arquivo Excel '' @ [CHR 0x22]) @ name file @ ([CHR 0x22] @ '':'' @ [CHR 0x0A] @ [CHR 0x0A]) @
                join [CHR 0x0A, CHR 0x0A] (map (\<lambda>n. sheet_block n (csv n)) (SheetNames workbook))
          in filePart env file = Inr (TextPart out) \<and>
             marker_lines out = concat (map (\<lambda>n. [start_marker n, end_marker n]) (SheetNames workbook)) \<and>
             filter is_start_marker (lines_of out) = map start_marker (SheetNames workbook) \<and>
             filter is_end_marker (lines_of out) = map end_marker (SheetNames workbook) \<and>
             length (filter is_start_marker (lines_of out)) = length (SheetNames workbook) \<and>
             length (filter is_end_marker (lines_of out)) = length (SheetNames workbook))"
proof -
  let ?out = "(''Conte'' @ [CHR 0xC3, CHR 0xBA] @ ''do do arquivo Excel '' @ [CHR 0x22]) @ name file @ ([CHR 0x22] @ '':'' @ [CHR 0x0A] @ [CHR 0x0A]) @
                join [CHR 0x0A, CHR 0x0A] (map (\<lambda>n. sheet_block n (csv n)) (SheetNames workbook))"
  have part: "filePart env file = Inr (TextPart ?out)"
    using assms(1) convertExcelToText_blocks [OF assms(2,3,4)]
    by (simp add: filePart_def Let_def)
  have "marker_lines ?out = marker_lines (join [CHR 0x0A, CHR 0x0A] (map (\<lambda>n. sheet_block n (csv n)) (SheetNames workbook)))"
    using assms(5) by (rule marker_lines_header)
  also have "\<dots> = concat (map (\<lambda>n. [start_marker n, end_marker n]) (SheetNames workbook))"
    using assms(6) by (rule marker_lines_blocks)
  finally have markers: "marker_lines ?out = concat (map (\<lambda>n. [start_marker n, end_marker n]) (SheetNames workbook))" .
  have starts: "filter is_start_marker (lines_of ?out) = map start_marker (SheetNames workbook)"
    by (simp only: start_markers_marker_lines markers start_markers_of_pairs)
  have ends: "filter is_end_marker (lines_of ?out) = map end_marker (SheetNames workbook)"
    by (simp only: end_markers_marker_lines markers end_markers_of_pairs)
  from part markers starts ends show ?thesis
    by (simp only: Let_def length_map simp_thms)
qed

theorem spreadsheet_text_has_one_marker_pair_per_sheet_witness:
  "filePart two_sheets \<lparr>name = ''Vendas.XLSX'', type = []\<rparr> =
     Inr (TextPart ((''Conte'' @ [CHR 0xC3, CHR 0xBA] @ ''do do arquivo Excel '' @ [CHR 0x22]) @ ''Vendas.XLSX'' @ ([CHR 0x22] @ '':'' @ [CHR 0x0A] @ [CHR 0x0A]) @
       ''--- START OF SHEET: Jan ---'' @ [CHR 0x0A] @ ''a,b'' @ [CHR 0x0A] @ ''--- END OF SHEET: Jan ---'' @
       [CHR 0x0A, CHR 0x0A] @
       ''--- START OF SHEET: Fev ---'' @ [CHR 0x0A] @ ''c,d'' @ [CHR 0x0A] @ ''--- END OF SHEET: Fev ---'')) \<and>
   marker_lines ((''Conte'' @ [CHR 0xC3, CHR 0xBA] @ ''do do arquivo Excel '' @ [CHR 0x22]) @ ''Vendas.XLSX'' @ ([CHR 0x22] @ '':'' @ [CHR 0x0A] @ [CHR 0x0A]) @
       ''--- START OF SHEET: Jan ---'' @ [CHR 0x0A] @ ''a,b'' @ [CHR 0x0A] @ ''--- END OF SHEET: Jan ---'' @
       [CHR 0x0A, CHR 0x0A] @
       ''--- START OF SHEET: Fev ---'' @ [CHR 0x0A] @ ''c,d'' @ [CHR 0x0A] @ ''--- END OF SHEET: Fev ---'') =
     [''--- START OF SHEET: Jan ---'', ''--- END OF SHEET: Jan ---'',
      ''--- START OF SHEET: Fev ---'', ''--- END OF SHEET: Fev ---''] \<and>
   length (filter is_start_marker (lines_of ((''Conte'' @ [CHR 0xC3, CHR 0xBA] @ ''do do arquivo Excel '' @ [CHR 0x22]) @ ''Vendas.XLSX'' @ ([CHR 0x22] @ '':'' @ [CHR 0x0A] @ [CHR 0x0A]) @
       ''--- START OF SHEET: Jan ---'' @ [CHR 0x0A] @ ''a,b'' @ [CHR 0x0A] @ ''--- END OF SHEET: Jan ---'' @
       [CHR 0x0A, CHR 0x0A] @
       ''--- START OF SHEET: Fev ---'' @ [CHR 0x0A] @ ''c,d'' @ [CHR 0x0A] @ ''--- END OF SHEET: Fev ---''))) = 2 \<and>
   length (filter is_end_marker (lines_of ((''Conte'' @ [CHR 0xC3, CHR 0xBA] @ ''do do arquivo Excel '' @ [CHR 0x22]) @ ''Vendas.XLSX'' @ ([CHR 0x22] @ '':'' @ [CHR 0x0A] @ [CHR 0x0A]) @
       ''--- START OF SHEET: Jan ---'' @ [CHR 0x0A] @ ''a,b'' @ [CHR 0x0A] @ ''--- END OF SHEET: Jan ---'' @
       [CHR 0x0A, CHR 0x0A] @
       ''--- START OF SHEET: Fev ---'' @ [CHR 0x0A] @ ''c,d'' @ [CHR 0x0A] @ ''--- END OF SHEET: Fev ---''))) = 2"
proof -
  have free: "marker_lines ''a,b'' = []" "marker_lines ''c,d'' = []"
    by (simp_all add: marker_lines_def is_start_marker_def is_end_marker_def)
  show ?thesis
    using spreadsheet_text_has_one_marker_pair_per_sheet
      [of "\<lparr>name = ''Vendas.XLSX'', type = []\<rparr>" two_sheets "()"
          "\<lparr>SheetNames = [''Jan'', ''Fev''], Sheets = (\<lambda>n. if n = ''Jan'' then Some ''a,b'' else if n = ''Fev'' then Some ''c,d'' else None)\<rparr>"
          "\<lambda>n. if n = ''Jan'' then ''a,b'' else ''c,d''"]
    by (simp add: two_sheets_def endsWith_def toLowerCase_def sheet_block_def free Let_def
          start_marker_def end_marker_def)
qed

section \<open>Properties of the draft handler\<close>

lemma requests_differ: "imagePromptRequest reportContent \<noteq> imageStyleRequest reportContent"
  by (simp add: imagePromptRequest_def imageStyleRequest_def)

lemma Promise_all_fulfilled:
  assumes "\<forall>r \<in> set results. \<not> isl r"
  shows "Promise_all order results = Inr (map projr results)"
proof -
  have "filter (\<lambda>i. i < length results \<and> isl (results ! i)) (order @ [0..<length results]) = []"
    using assms by (auto simp: filter_empty_conv)
  then show ?thesis
    by (simp add: Promise_all_def)
qed

lemma Promise_all_rejected:
  assumes "\<exists>r \<in> set results. isl r"
  shows "\<exists>i < length results. isl (results ! i) \<and> Promise_all order results = Inl (projl (results ! i))"
proof -
  from assms obtain j where j: "j < length results" "isl (results ! j)"
    by (auto simp: in_set_conv_nth)
  define rejected where "rejected = filter (\<lambda>i. i < length results \<and> isl (results ! i)) (order @ [0..<length results])"
  from j have "j \<in> set rejected"
    by (simp add: rejected_def)
  then obtain i rest where first: "rejected = i # rest"
    by (cases rejected) simp_all
  then have "i \<in> set rejected"
    by simp
  then have "i < length results \<and> isl (results ! i)"
    unfolding rejected_def by (simp only: set_filter mem_Collect_eq)
  moreover have "Promise_all order results = (case rejected of [] \<Rightarrow> Inr (map projr results) | i # rest \<Rightarrow> Inl (projl (results ! i)))"
    unfolding Promise_all_def rejected_def ..
  with first have "Promise_all order results = Inl (projl (results ! i))"
    by simp
  ultimately show ?thesis
    by blast
qed

lemma trim_example: "removeQuotes (trim ('' '' @ [CHR 0x22] @ ''Minimalista, tons de azul'' @ [CHR 0x22, CHR 0x0A])) = ''Minimalista, tons de azul''"
proof -
  have front: "strip whiteSpace (CHR '' '' # CHR 0x22 # s) = CHR 0x22 # s" for s
    by (subst strip.simps, simp add: whiteSpace_def, subst strip.simps, simp add: whiteSpace_def)
  have ending: "strip (map rev whiteSpace) (CHR 0x0A # CHR 0x22 # s) = CHR 0x22 # s" for s
    by (subst strip.simps, simp add: whiteSpace_def, subst strip.simps, simp add: whiteSpace_def)
  show ?thesis
    by (simp add: trim_def front ending removeQuotes_def)
qed

lemma trim_no_break_space: "trim ([CHR 0xC2, CHR 0xA0] @ ''a b'' @ [CHR 0xE2, CHR 0x80, CHR 0xA8]) = ''a b''"
proof -
  have front: "strip whiteSpace (CHR 0xC2 # CHR 0xA0 # CHR ''a'' # s) = CHR ''a'' # s" for s
    by (subst strip.simps, simp add: whiteSpace_def, subst strip.simps, simp add: whiteSpace_def)
  have ending: "strip (map rev whiteSpace) (CHR 0xA8 # CHR 0x80 # CHR 0xE2 # CHR ''b'' # s) = CHR ''b'' # s" for s
    by (subst strip.simps, simp add: whiteSpace_def, subst strip.simps, simp add: whiteSpace_def)
  show ?thesis
    by (simp add: trim_def front ending)
qed

text \<open>
  C6. Each suggestion function always returns, never raises: its result is the
  suggestion carried by the answer to its own request, which is the empty string
  when the call threw. The two requests differ, so either call can fail whatever the
  other does, and the result of one does not depend on the answer to the other.
  After a draft has been generated the handler stores both results and shows no
  error.
\<close>

theorem suggestions_never_raise:
  "generateImagePromptSuggestion ai reportContent = Inr (suggestion_of (ai (imagePromptRequest reportContent))) \<and>
   generateImageStyleSuggestion ai reportContent = Inr (suggestion_of (ai (imageStyleRequest reportContent))) \<and>
   (\<forall>e. suggestion_of (Inl e) = []) \<and>
   imagePromptRequest reportContent \<noteq> imageStyleRequest reportContent \<and>
   (\<forall>fileParts response.
      Promise_all order (map (filePart env) (knowledgeBaseFiles f)) = Inr fileParts \<and>
      ai (draftRequest (selectedTheme f) (userPrompt f) fileParts (useGoogleSearch f) (selectedTone f)) = Inr response \<longrightarrow>
      (let st' = fst (handleSubmitDraft env ai order f st) in
       error' st' = None \<and> draftResult st' = response_text response \<and>
       imagePrompt st' = suggestion_of (ai (imagePromptRequest (response_text response))) \<and>
       imageStylePrompt st' = suggestion_of (ai (imageStyleRequest (response_text response)))))"
proof (intro conjI allI impI)
  show "generateImagePromptSuggestion ai reportContent = Inr (suggestion_of (ai (imagePromptRequest reportContent)))"
    by (simp add: generateImagePromptSuggestion_def suggestion_of_def split: sum.splits option.splits)
  show "generateImageStyleSuggestion ai reportContent = Inr (suggestion_of (ai (imageStyleRequest reportContent)))"
    by (simp add: generateImageStyleSuggestion_def suggestion_of_def split: sum.splits option.splits)
  show "suggestion_of (Inl e) = []" for e
    by (simp add: suggestion_of_def)
  show "imagePromptRequest reportContent \<noteq> imageStyleRequest reportContent"
    by (rule requests_differ)
next
  fix fileParts response
  assume a: "Promise_all order (map (filePart env) (knowledgeBaseFiles f)) = Inr fileParts \<and>
      ai (draftRequest (selectedTheme f) (userPrompt f) fileParts (useGoogleSearch f) (selectedTone f)) = Inr response"
  let ?text = "response_text response"
  have p: "generateImagePromptSuggestion ai ?text = Inr (suggestion_of (ai (imagePromptRequest ?text)))"
    by (simp add: generateImagePromptSuggestion_def suggestion_of_def split: sum.splits option.splits)
  have s: "generateImageStyleSuggestion ai ?text = Inr (suggestion_of (ai (imageStyleRequest ?text)))"
    by (simp add: generateImageStyleSuggestion_def suggestion_of_def split: sum.splits option.splits)
  have draft: "generateReportDraft ai (selectedTheme f) (userPrompt f) fileParts (useGoogleSearch f) (selectedTone f) =
      Inr (?text, groundingChunks response)"
    using a by (simp add: generateReportDraft_def)
  have pair: "Promise_all [0, 1] [generateImagePromptSuggestion ai ?text, generateImageStyleSuggestion ai ?text] =
      Inr [suggestion_of (ai (imagePromptRequest ?text)), suggestion_of (ai (imageStyleRequest ?text))]"
    by (simp add: p s Promise_all_fulfilled)
  show "let st' = fst (handleSubmitDraft env ai order f st) in
       error' st' = None \<and> draftResult st' = response_text response \<and>
       imagePrompt st' = suggestion_of (ai (imagePromptRequest (response_text response))) \<and>
       imageStylePrompt st' = suggestion_of (ai (imageStyleRequest (response_text response)))"
    using pair a by (simp add: handleSubmitDraft_def Let_def draft split: option.splits)
qed

theorem suggestions_never_raise_witness:
  "generateImagePromptSuggestion style_only (Some ''# Draft'') = Inr [] \<and>
   generateImageStyleSuggestion style_only (Some ''# Draft'') = Inr ''Minimalista, tons de azul'' \<and>
   error' (fst (handleSubmitDraft two_sheets style_only [] initial_form initial_state)) = None \<and>
   draftResult (fst (handleSubmitDraft two_sheets style_only [] initial_form initial_state)) = Some ''# Draft'' \<and>
   imagePrompt (fst (handleSubmitDraft two_sheets style_only [] initial_form initial_state)) = [] \<and>
   imageStylePrompt (fst (handleSubmitDraft two_sheets style_only [] initial_form initial_state)) = ''Minimalista, tons de azul''"
proof -
  have files: "Promise_all [] (map (filePart two_sheets) (knowledgeBaseFiles initial_form)) = Inr []"
    by (simp add: initial_form_def Promise_all_def)
  have draft: "style_only (draftRequest th pr ps g tn) = Inr \<lparr>response_text = Some ''# Draft'', groundingChunks = None\<rparr>" for th pr ps g tn
    by (simp add: style_only_def draftRequest_def)
  have p: "suggestion_of (style_only (imagePromptRequest rc)) = []" for rc
    by (simp add: style_only_def imagePromptRequest_def suggestion_of_def)
  have s: "suggestion_of (style_only (imageStyleRequest rc)) = ''Minimalista, tons de azul''" for rc
    using trim_example by (simp add: style_only_def imageStyleRequest_def suggestion_of_def)
  show ?thesis
    using suggestions_never_raise [of style_only "Some ''# Draft''" "[]" two_sheets initial_form initial_state] files
    by (simp add: draft p s Let_def)
qed

text \<open>
  C7. The claim that a failing file surfaces as a typed error carrying the file's
  name fails: a spreadsheet whose read yields no result is rejected with the plain
  error \<^verbatim>\<open>Failed to read file.\<close>, that message is what the handler shows, and
  the name of the file does not occur in it.
\<close>

theorem file_error_lacks_file_name_counterexample:
  "filePart unreadable \<lparr>name = ''vendas.xlsx'', type = []\<rparr> = Inl (Error ''Failed to read file.'') \<and>
   error' (fst (handleSubmitDraft unreadable (answering ''# Draft'') [0]
          (initial_form\<lparr>knowledgeBaseFiles := [\<lparr>name = ''vendas.xlsx'', type = []\<rparr>]\<rparr>) initial_state)) =
     Some ''Failed to read file.'' \<and>
   \<not> includes_str ''Failed to read file.'' ''vendas.xlsx''"
proof -
  have bad: "filePart unreadable \<lparr>name = ''vendas.xlsx'', type = []\<rparr> = Inl (Error ''Failed to read file.'')"
    by (simp add: filePart_def Let_def endsWith_def toLowerCase_def convertExcelToText_def unreadable_def two_sheets_def)
  have "Promise_all [0] [filePart unreadable \<lparr>name = ''vendas.xlsx'', type = []\<rparr>] = Inl (Error ''Failed to read file.'')"
    by (simp add: bad Promise_all_def)
  then have "error' (fst (handleSubmitDraft unreadable (answering ''# Draft'') [0]
          (initial_form\<lparr>knowledgeBaseFiles := [\<lparr>name = ''vendas.xlsx'', type = []\<rparr>]\<rparr>) initial_state)) =
     Some ''Failed to read file.''"
    by (simp add: handleSubmitDraft_def Let_def error_message_def)
  moreover have "\<not> includes_str ''Failed to read file.'' ''vendas.xlsx''"
    by simp
  ultimately show ?thesis
    using bad by simp
qed

text \<open>
  C7, as amended. When the normalisation of at least one file of the request fails,
  the handler makes no request to the generation backend, no draft is set, and the
  error shown is the message of the error of one of the failing files (a fixed text
  when what was thrown is not an \<^verbatim>\<open>Error\<close>); there is no error type of its own
  and no file name in it.
\<close>

theorem failing_file_aborts_request:
  assumes "\<exists>file \<in> set (knowledgeBaseFiles f). isl (filePart env file)"
  shows "snd (handleSubmitDraft env ai order f st) = [] \<and>
         draftResult (fst (handleSubmitDraft env ai order f st)) = None \<and>
         (\<exists>file \<in> set (knowledgeBaseFiles f). \<exists>err. filePart env file = Inl err \<and>
            error' (fst (handleSubmitDraft env ai order f st)) = Some (error_message err))"
proof -
  let ?results = "map (filePart env) (knowledgeBaseFiles f)"
  from assms have "\<exists>r \<in> set ?results. isl r"
    by simp
  from Promise_all_rejected [OF this, of order]
  obtain i where i: "i < length (knowledgeBaseFiles f)" "isl (filePart env (knowledgeBaseFiles f ! i))"
    and rejected: "Promise_all order ?results = Inl (projl (filePart env (knowledgeBaseFiles f ! i)))"
    by auto
  let ?file = "knowledgeBaseFiles f ! i"
  let ?err = "projl (filePart env ?file)"
  from i have "?file \<in> set (knowledgeBaseFiles f)" and "filePart env ?file = Inl ?err"
    by simp_all
  moreover have "snd (handleSubmitDraft env ai order f st) = []"
    and "draftResult (fst (handleSubmitDraft env ai order f st)) = None"
    and "error' (fst (handleSubmitDraft env ai order f st)) = Some (error_message ?err)"
    by (simp_all add: handleSubmitDraft_def Let_def rejected)
  ultimately show ?thesis
    by blast
qed

theorem failing_file_aborts_request_witness:
  "snd (handleSubmitDraft unreadable (answering ''# Draft'') [0]
          (initial_form\<lparr>knowledgeBaseFiles := [\<lparr>name = ''vendas.xlsx'', type = []\<rparr>]\<rparr>) initial_state) = [] \<and>
   draftResult (fst (handleSubmitDraft unreadable (answering ''# Draft'') [0]
          (initial_form\<lparr>knowledgeBaseFiles := [\<lparr>name = ''vendas.xlsx'', type = []\<rparr>]\<rparr>) initial_state)) = None \<and>
   error' (fst (handleSubmitDraft unreadable (answering ''# Draft'') [0]
          (initial_form\<lparr>knowledgeBaseFiles := [\<lparr>name = ''vendas.xlsx'', type = []\<rparr>]\<rparr>) initial_state)) =
     Some ''Failed to read file.''"
proof -
  have bad: "filePart unreadable \<lparr>name = ''vendas.xlsx'', type = []\<rparr> = Inl (Error ''Failed to read file.'')"
    by (simp add: filePart_def Let_def endsWith_def toLowerCase_def convertExcelToText_def unreadable_def two_sheets_def)
  show ?thesis
    using failing_file_aborts_request [of "initial_form\<lparr>knowledgeBaseFiles := [\<lparr>name = ''vendas.xlsx'', type = []\<rparr>]\<rparr>"
        unreadable "answering ''# Draft''" "[0]" initial_state]
    by (simp add: bad error_message_def)
qed

section \<open>Properties of the prompt composition\<close>

lemma THEME_PROMPTS_keys:
  "map fst THEME_PROMPTS =
     [''Estrat'' @ [CHR 0xC3, CHR 0xA9] @ ''gia de Crescimento'',
      ''Reconhecimento de Marca'',
      ''An'' @ [CHR 0xC3, CHR 0xA1] @ ''lise de Mercado'',
      ''Planejamento de M'' @ [CHR 0xC3, CHR 0xAD] @ ''dia'',
      ''An'' @ [CHR 0xC3, CHR 0xA1] @ ''lise de Social Media'',
      ''Relat'' @ [CHR 0xC3, CHR 0xB3] @ ''rio de Performance (P'' @ [CHR 0xC3, CHR 0xB3] @ ''s-Campanha)'',
      ''Branding & Posicionamento'',
      ''An'' @ [CHR 0xC3, CHR 0xA1] @ ''lise de Concorr'' @ [CHR 0xC3, CHR 0xAA] @ ''ncia'']"
  by (simp add: THEME_PROMPTS_def)

lemma Object_prototype_keys:
  "map fst Object_prototype =
     [''constructor'', ''__defineGetter__'', ''__defineSetter__'', ''hasOwnProperty'', ''__lookupGetter__'',
      ''__lookupSetter__'', ''isPrototypeOf'', ''propertyIsEnumerable'', ''toString'', ''valueOf'', ''__proto__'',
      ''toLocaleString'']"
  by (simp add: Object_prototype_def)

lemma map_of_None_keys: "map_of ps k = None \<longleftrightarrow> k \<notin> set (map fst ps)"
  by (simp add: map_of_eq_None_iff)

text \<open>Whatever the theme, the brief is a non-empty text: composition never fails.\<close>

lemma brief_nonempty: "ToString (themePrompt theme) \<noteq> []"
proof (cases "get_property THEME_PROMPTS theme")
  case Undefined
  then show ?thesis by (simp add: themePrompt_def)
next
  case (String s)
  then show ?thesis by (simp add: themePrompt_def)
next
  case (NativeFunction f)
  then show ?thesis by (simp add: themePrompt_def)
next
  case ObjectPrototype
  then show ?thesis by (simp add: themePrompt_def)
qed

text \<open>A theme that is neither a key of the table nor a property of
  \<^verbatim>\<open>Object.prototype\<close> gets the generic brief.\<close>

lemma unknown_theme_fallback:
  assumes "theme \<notin> set (map fst THEME_PROMPTS)" and "theme \<notin> set (map fst Object_prototype)"
  shows "themePrompt theme = String (''Analise os dados fornecidos e gere um relat'' @ [CHR 0xC3, CHR 0xB3] @ ''rio conciso e estrat'' @ [CHR 0xC3, CHR 0xA9] @ ''gico.'')"
proof -
  from assms have "map_of THEME_PROMPTS theme = None" and "map_of Object_prototype theme = None"
    by (simp_all only: map_of_None_keys not_False_eq_True)
  then have "get_property THEME_PROMPTS theme = Undefined"
    by (simp add: get_property_def)
  then show ?thesis
    by (simp add: themePrompt_def)
qed

text \<open>
  C8. The theme \<^verbatim>\<open>constructor\<close> is not a key of the table of theme prompts, yet
  the lookup finds the function that the table inherits from
  \<^verbatim>\<open>Object.prototype\<close>; it is truthy, so it is taken as the brief instead of the
  generic one, and the user prompt begins with the function's source text.
\<close>

theorem inherited_property_taken_as_brief:
  "''constructor'' \<notin> set (map fst THEME_PROMPTS) \<and>
   themePrompt ''constructor'' = NativeFunction ''Object'' \<and>
   themePrompt ''constructor'' \<noteq> String (''Analise os dados fornecidos e gere um relat'' @ [CHR 0xC3, CHR 0xB3] @ ''rio conciso e estrat'' @ [CHR 0xC3, CHR 0xA9] @ ''gico.'') \<and>
   fullUserPrompt ''constructor'' ''Resumo do trimestre'' =
     ''function Object() { [native code] }'' @ ([CHR 0x0A] @ [CHR 0x0A] @ ''**Briefing do Usu'' @ [CHR 0xC3, CHR 0xA1] @ ''rio:**'' @ [CHR 0x0A]) @ ''Resumo do trimestre''"
proof -
  have keys: "''constructor'' \<notin> set (map fst THEME_PROMPTS)"
    by (simp add: THEME_PROMPTS_keys)
  then have "map_of THEME_PROMPTS ''constructor'' = None"
    by (simp only: map_of_None_keys not_False_eq_True)
  then have "get_property THEME_PROMPTS ''constructor'' = NativeFunction ''Object''"
    by (simp add: get_property_def Object_prototype_def)
  then have brief: "themePrompt ''constructor'' = NativeFunction ''Object''"
    by (simp add: themePrompt_def)
  then have "fullUserPrompt ''constructor'' ''Resumo do trimestre'' =
     ''function Object() { [native code] }'' @ ([CHR 0x0A] @ [CHR 0x0A] @ ''**Briefing do Usu'' @ [CHR 0xC3, CHR 0xA1] @ ''rio:**'' @ [CHR 0x0A]) @ ''Resumo do trimestre''"
    by (simp add: fullUserPrompt_def)
  with keys brief show ?thesis
    by simp
qed


end
